theory Spec2Isabelle
  imports Main "HOL-Library.Sublist"
begin

section \<open>Exceptions, log records and tables\<close>

text \<open>
  The Python exceptions that the two modules raise or let through. \<open>KeyError\<close> carries
  the missing key, \<open>ValidationError\<close> the key of the \<open>KeyError\<close> it wraps,
  \<open>RequestException\<close> and \<open>Exception\<close> the JSON document they are raised with.
\<close>

datatype json =
    JNull
  | JBool bool
  | JNum int
  | JStr string
  | JArr "json list"
  | JObj "(string \<times> json) list"

datatype exn =
    KeyError string
  | ValidationError string
  | IntegrityError string
  | DoesNotExist
  | MultipleObjectsReturned
  | OverflowError
  | RequestException json
  | Exception json

datatype log_level = DEBUG | INFO | WARNING

text \<open>
  A log record is its level and the message template of the call; the values interpolated
  into the f-string are not part of the model.
\<close>

type_synonym log_record = "log_level \<times> string"

text \<open>
  A database table is the list of its rows in insertion order, each row with its
  primary key. A model instance is such a row. A new row gets a key that no row has.
\<close>

type_synonym 'a row = "nat \<times> 'a"
type_synonym 'a table = "'a row list"

definition fresh_pk :: "'a table \<Rightarrow> nat" where
  "fresh_pk t = Suc (foldr max (map fst t) 0)"

definition insert_row :: "'a \<Rightarrow> 'a table \<Rightarrow> 'a row \<times> 'a table" where
  "insert_row r t = (let new = (fresh_pk t, r) in (new, t @ [new]))"

section \<open>Data model\<close>

text \<open>
  \<open>Address\<close>, \<open>Contact\<close>, \<open>EpaPhone\<close>, \<open>PaperSignature\<close> and \<open>ESignature\<close> are declared in
  modules beside \<open>handler_model.py\<close>; their columns follow the data model of the
  specification (street, city, state, zip; name, phone; number, extension; signer, time).
\<close>

record address_data =
  addr_street :: string
  addr_city :: string
  addr_state :: string
  addr_zip :: string

record phone_data =
  phone_number :: string
  phone_extension :: "string option"

record contact_fields =
  contact_name :: string
  contact_phone :: "nat option"

record signature_data =
  signer :: string
  sign_date :: string

record e_signature_fields =
  es_manifest_handler :: nat
  es_data :: signature_data

text \<open>The columns of \<open>Handler\<close> (lines 82--152); a foreign key holds the key of its row.\<close>

record handler_fields =
  site_type :: "string option"
  epa_id :: string
  name :: string
  site_address :: nat
  mail_address :: nat
  modified :: "bool option"
  registered :: "bool option"
  contact :: nat
  emergency_phone :: "nat option"
  gis_primary :: "bool option"
  can_esign :: "bool option"
  limited_esign :: "bool option"
  registered_emanifest_user :: "bool option"

text \<open>The columns of \<open>ManifestHandler\<close> (lines 206--217).\<close>

record manifest_handler_fields =
  handler :: nat
  paper_signature :: "nat option"

text \<open>
  \<open>Manifest\<close> is declared beside \<open>handler_model.py\<close>; by the data model of the
  specification it has its tracking number and the ordered list of its ManifestHandlers.
\<close>

record manifest_fields =
  mtn :: string
  manifest_handler_refs :: "nat list"

text \<open>The database, and the records written to the loggers.\<close>

record store =
  addresses :: "address_data table"
  phones :: "phone_data table"
  contacts :: "contact_fields table"
  handlers :: "handler_fields table"
  paper_signatures :: "signature_data table"
  e_signatures :: "e_signature_fields table"
  manifest_handlers :: "manifest_handler_fields table"
  manifests :: "manifest_fields table"
  logs :: "log_record list"

definition log_msg :: "log_level \<Rightarrow> string \<Rightarrow> store \<Rightarrow> store" where
  "log_msg lvl msg s = s\<lparr>logs := logs s @ [(lvl, msg)]\<rparr>"


section \<open>Keyword arguments\<close>

text \<open>
  An address argument is an \<open>Address\<close> instance or a dict of raw fields
  (\<open>isinstance(address, Address)\<close>, line 67).
\<close>

datatype address_input = AddressRef "address_data row" | RawAddress address_data

text \<open>
  The keyword arguments of \<open>HandlerManager.save\<close>. A field is \<open>None\<close> when the key is
  absent from the dict. \<open>emergency_phone\<close>, \<open>gis_primary\<close> and
  \<open>registered_emanifest_user\<close> tell an absent key (\<open>None\<close>) from a key whose value is
  \<open>None\<close> (\<open>Some None\<close>).
\<close>

record handler_data =
  hd_epa_id :: "string option"
  hd_name :: "string option"
  hd_site_type :: "string option"
  hd_contact :: "(string \<times> phone_data option) option"
  hd_emergency_phone :: "phone_data option option"
  hd_site_address :: "address_input option"
  hd_mail_address :: "address_input option"
  hd_modified :: "bool option"
  hd_registered :: "bool option"
  hd_gis_primary :: "bool option option"
  hd_can_esign :: "bool option"
  hd_limited_esign :: "bool option"
  hd_registered_emanifest_user :: "bool option option"

datatype address_key = site_address_key | mail_address_key

fun key_name :: "address_key \<Rightarrow> string" where
  "key_name site_address_key = ''site_address''"
| "key_name mail_address_key = ''mail_address''"

text \<open>\<open>self.handler_data.pop(key)\<close> for the two keys \<open>get_address\<close> is called with.\<close>

fun pop_address :: "address_key \<Rightarrow> handler_data \<Rightarrow> (address_input \<times> handler_data) option" where
  "pop_address site_address_key hdat =
     (case hd_site_address hdat of None \<Rightarrow> None
      | Some a \<Rightarrow> Some (a, hdat\<lparr>hd_site_address := None\<rparr>))"
| "pop_address mail_address_key hdat =
     (case hd_mail_address hdat of None \<Rightarrow> None
      | Some a \<Rightarrow> Some (a, hdat\<lparr>hd_mail_address := None\<rparr>))"

section \<open>HandlerManager\<close>

text \<open>\<open>Address.objects.create(**address)\<close>: one new row.\<close>

definition Address_create :: "address_data \<Rightarrow> store \<Rightarrow> address_data row \<times> store" where
  "Address_create a s =
     (let (new, t) = insert_row a (addresses s) in (new, s\<lparr>addresses := t\<rparr>))"

text \<open>
  \<open>HandlerManager.get_address\<close> (lines 63--72). The state is the store and
  \<open>self.handler_data\<close>; a missing key is logged and raised as \<open>ValidationError\<close>.
\<close>

definition get_address ::
  "address_key \<Rightarrow> store \<times> handler_data \<Rightarrow> (exn + address_data row) \<times> store \<times> handler_data" where
  "get_address key = (\<lambda>(s, hdat).
     (case pop_address key hdat of
        None \<Rightarrow> (Inl (ValidationError (key_name key)), log_msg WARNING ''{exc}'' s, hdat)
      | Some (AddressRef a, hdat') \<Rightarrow> (Inr a, s, hdat')
      | Some (RawAddress d, hdat') \<Rightarrow>
          (let (a, s') = Address_create d s in (Inr a, s', hdat'))))"

text \<open>\<open>EpaPhone.objects.create(**emergency_phone_data)\<close>: one new row.\<close>

definition EpaPhone_create :: "phone_data \<Rightarrow> store \<Rightarrow> phone_data row \<times> store" where
  "EpaPhone_create p s =
     (let (new, t) = insert_row p (phones s) in (new, s\<lparr>phones := t\<rparr>))"

text \<open>
  Modelled from the spec: \<open>Contact.objects.save\<close> (\<open>contact_model.py\<close>) is the
  ContactAssembler of section 4.2: it always creates a new Contact, and the phone
  nested in the contact data with it.
\<close>

definition Contact_save :: "string \<times> phone_data option \<Rightarrow> store \<Rightarrow> contact_fields row \<times> store" where
  "Contact_save c s =
     (case snd c of
        None \<Rightarrow>
          (let (new, t) = insert_row \<lparr>contact_name = fst c, contact_phone = None\<rparr> (contacts s)
           in (new, s\<lparr>contacts := t\<rparr>))
      | Some p \<Rightarrow>
          (let (ph, s1) = EpaPhone_create p s;
               (new, t) = insert_row \<lparr>contact_name = fst c, contact_phone = Some (fst ph)\<rparr>
                            (contacts s1)
           in (new, s1\<lparr>contacts := t\<rparr>)))"

text \<open>
  \<open>HandlerManager.get_emergency_phone\<close> (lines 53--61): an absent key is logged at debug
  level; a key whose value is \<open>None\<close> falls off the end of the \<open>try\<close> block.
\<close>

definition get_emergency_phone ::
  "store \<times> handler_data \<Rightarrow> phone_data row option \<times> store \<times> handler_data" where
  "get_emergency_phone = (\<lambda>(s, hdat).
     (case hd_emergency_phone hdat of
        None \<Rightarrow> (None, log_msg DEBUG ''{exc}'' s, hdat)
      | Some None \<Rightarrow> (None, s, hdat\<lparr>hd_emergency_phone := None\<rparr>)
      | Some (Some p) \<Rightarrow>
          (let (ph, s') = EpaPhone_create p s
           in (Some ph, s', hdat\<lparr>hd_emergency_phone := None\<rparr>))))"

text \<open>
  \<open>objects.filter(epa_id=epa_id)\<close>. The column is not nullable, so the lookup by \<open>None\<close>
  (a payload without the key, read with \<open>.get\<close>) matches no row.
\<close>

definition Handler_filter :: "string option \<Rightarrow> store \<Rightarrow> handler_fields table" where
  "Handler_filter e s =
     (case e of None \<Rightarrow> [] | Some i \<Rightarrow> filter (\<lambda>h. epa_id (snd h) = i) (handlers s))"

definition Handler_exists :: "string option \<Rightarrow> store \<Rightarrow> bool" where
  "Handler_exists e s = (Handler_filter e s \<noteq> [])"

text \<open>\<open>Handler.objects.get(epa_id=epa_id)\<close>: the one matching row, or an exception.\<close>

definition Handler_get :: "string option \<Rightarrow> store \<Rightarrow> exn + handler_fields row" where
  "Handler_get e s =
     (case Handler_filter e s of
        [] \<Rightarrow> Inl DoesNotExist
      | [h] \<Rightarrow> Inr h
      | _ \<Rightarrow> Inl MultipleObjectsReturned)"

text \<open>
  Modelled from the spec: \<open>TrakBaseManager.save\<close> (\<open>base_model.py\<close>), reached by
  \<open>super().save\<close>, creates the Handler with the remaining scalar fields plus the four
  resolved references (section 4.3, step 2). The columns' constraints are the ones
  declared in lines 82--152: \<open>epa_id\<close> is unique, an absent char field is the empty
  string, \<open>gis_primary\<close> and \<open>registered_emanifest_user\<close> default to \<open>False\<close>.
\<close>

definition Handler_create ::
  "address_data row \<Rightarrow> address_data row \<Rightarrow> phone_data row option \<Rightarrow> contact_fields row \<Rightarrow>
   handler_data \<Rightarrow> store \<Rightarrow> (exn + handler_fields row) \<times> store" where
  "Handler_create site mail phone new_contact hdat s =
     (let e = (case hd_epa_id hdat of None \<Rightarrow> [] | Some i \<Rightarrow> i) in
      if filter (\<lambda>h. epa_id (snd h) = e) (handlers s) \<noteq> [] then (Inl (IntegrityError ''epa_id''), s)
      else
        (let (new, t) = insert_row
               \<lparr>site_type = hd_site_type hdat,
                epa_id = e,
                name = (case hd_name hdat of None \<Rightarrow> [] | Some n \<Rightarrow> n),
                site_address = fst site,
                mail_address = fst mail,
                modified = hd_modified hdat,
                registered = hd_registered hdat,
                contact = fst new_contact,
                emergency_phone = map_option fst phone,
                gis_primary = (case hd_gis_primary hdat of None \<Rightarrow> Some False | Some b \<Rightarrow> b),
                can_esign = hd_can_esign hdat,
                limited_esign = hd_limited_esign hdat,
                registered_emanifest_user =
                  (case hd_registered_emanifest_user hdat of None \<Rightarrow> Some False | Some b \<Rightarrow> b)\<rparr>
               (handlers s)
         in (Inr new, s\<lparr>handlers := t\<rparr>)))"

text \<open>The body of the \<open>try\<close> block of \<open>HandlerManager.save\<close> (lines 35--49).\<close>

definition HandlerManager_save_body ::
  "handler_data \<Rightarrow> store \<Rightarrow> (exn + handler_fields row option) \<times> store" where
  "HandlerManager_save_body handler_data s =
     (let e = hd_epa_id handler_data in
      if Handler_exists e s then
        (case Handler_get e s of Inl x \<Rightarrow> (Inl x, s) | Inr h \<Rightarrow> (Inr (Some h), s))
      else
        (case hd_contact handler_data of
           None \<Rightarrow> (Inl (KeyError ''contact''), s)
         | Some c \<Rightarrow>
             (let (new_contact, s1) = Contact_save c s;
                  (phone, s2, hd2) = get_emergency_phone (s1, handler_data\<lparr>hd_contact := None\<rparr>)
              in case get_address site_address_key (s2, hd2) of
                   (Inl x, s3, hd3) \<Rightarrow> (Inl x, s3)
                 | (Inr site, s3, hd3) \<Rightarrow>
                     (case get_address mail_address_key (s3, hd3) of
                        (Inl x, s4, hd4) \<Rightarrow> (Inl x, s4)
                      | (Inr mail, s4, hd4) \<Rightarrow>
                          (case Handler_create site mail phone new_contact hd4 s4 of
                             (Inl x, s5) \<Rightarrow> (Inl x, s5)
                           | (Inr h, s5) \<Rightarrow> (Inr (Some h), s5))))))"

text \<open>
  \<open>HandlerManager.save\<close> (lines 24--51): a \<open>KeyError\<close> of the body is logged at warning
  level and the method returns \<open>None\<close>; any other exception leaves the method.
\<close>

definition HandlerManager_save ::
  "handler_data \<Rightarrow> store \<Rightarrow> (exn + handler_fields row option) \<times> store" where
  "HandlerManager_save handler_data s =
     (case HandlerManager_save_body handler_data s of
        (Inl (KeyError k), s') \<Rightarrow> (Inr None, log_msg WARNING ''error while creating handler {exc}'' s')
      | r \<Rightarrow> r)"

section \<open>ManifestHandler\<close>

text \<open>
  The keyword arguments of \<open>ManifestHandlerManager.save\<close>: each of the three keys may be
  absent.
\<close>

record manifest_handler_data =
  mhd_e_signatures :: "signature_data list option"
  mhd_paper_signature :: "signature_data option"
  mhd_handler :: "handler_data option"

text \<open>\<open>PaperSignature.objects.create(**...)\<close>: one new row.\<close>

definition PaperSignature_create :: "signature_data \<Rightarrow> store \<Rightarrow> signature_data row \<times> store" where
  "PaperSignature_create d s =
     (let (new, t) = insert_row d (paper_signatures s) in (new, s\<lparr>paper_signatures := t\<rparr>))"

text \<open>
  \<open>self.model.objects.create(handler=handler, paper_signature=paper_signature)\<close>. The
  column \<open>handler\<close> (line 206) is not nullable: a row without a handler is refused.
\<close>

definition ManifestHandler_create ::
  "handler_fields row option \<Rightarrow> signature_data row option \<Rightarrow> store \<Rightarrow>
   (exn + manifest_handler_fields row) \<times> store" where
  "ManifestHandler_create h paper s =
     (case h of
        None \<Rightarrow> (Inl (IntegrityError ''handler_id''), s)
      | Some hr \<Rightarrow>
          (let (new, t) = insert_row \<lparr>handler = fst hr, paper_signature = map_option fst paper\<rparr>
                            (manifest_handlers s)
           in (Inr new, s\<lparr>manifest_handlers := t\<rparr>)))"

text \<open>
  Modelled from the spec: \<open>ESignature.objects.save\<close> (\<open>signature_model.py\<close>) creates one
  ESignature that references the ManifestHandler (section 4.4). Which entries make it
  raise is decided there, so it is the parameter \<open>rejects\<close>: \<open>rejects d = Some x\<close> when
  the call raises \<open>x\<close> on the entry \<open>d\<close>.
\<close>

definition ESignature_save ::
  "(signature_data \<Rightarrow> exn option) \<Rightarrow> manifest_handler_fields row \<Rightarrow> signature_data \<Rightarrow> store \<Rightarrow>
   (exn + e_signature_fields row) \<times> store" where
  "ESignature_save rejects mh d s =
     (case rejects d of
        Some x \<Rightarrow> (Inl x, s)
      | None \<Rightarrow>
          (let (new, t) = insert_row \<lparr>es_manifest_handler = fst mh, es_data = d\<rparr> (e_signatures s)
           in (Inr new, s\<lparr>e_signatures := t\<rparr>)))"

text \<open>The loop over \<open>e_signatures\<close> (lines 185--189).\<close>

fun save_e_signatures ::
  "(signature_data \<Rightarrow> exn option) \<Rightarrow> manifest_handler_fields row \<Rightarrow> signature_data list \<Rightarrow>
   store \<Rightarrow> (exn + unit) \<times> store" where
  "save_e_signatures rejects mh [] s = (Inr (), s)"
| "save_e_signatures rejects mh (d # ds) s =
     (case ESignature_save rejects mh d s of
        (Inl x, s') \<Rightarrow> (Inl x, s')
      | (Inr e_sig, s') \<Rightarrow>
          save_e_signatures rejects mh ds (log_msg DEBUG ''ESignature created {e_sig}'' s'))"

text \<open>The body of the \<open>try\<close> block of \<open>ManifestHandlerManager.save\<close> (lines 172--190).\<close>

definition ManifestHandlerManager_save_body ::
  "(signature_data \<Rightarrow> exn option) \<Rightarrow> signature_data row option \<Rightarrow> signature_data list \<Rightarrow>
   manifest_handler_data \<Rightarrow> store \<Rightarrow> (exn + manifest_handler_fields row option) \<times> store" where
  "ManifestHandlerManager_save_body rejects paper e_sigs handler_data s =
     (case mhd_handler handler_data of
        None \<Rightarrow> (Inl (KeyError ''handler''), s)
      | Some hdat \<Rightarrow>
          (case hd_epa_id hdat of
             None \<Rightarrow> (Inl (KeyError ''epa_id''), s)
           | Some e \<Rightarrow>
               (case (if Handler_exists (Some e) s then
                        (case Handler_get (Some e) s of
                           Inl x \<Rightarrow> (Inl x, s)
                         | Inr h \<Rightarrow> (Inr (Some h), log_msg DEBUG ''using existing Handler {handler}'' s))
                      else
                        (case HandlerManager_save hdat s of
                           (Inl x, s1) \<Rightarrow> (Inl x, s1)
                         | (Inr h, s1) \<Rightarrow> (Inr h, log_msg DEBUG ''Handler created {handler}'' s1)))
                of
                  (Inl x, s1) \<Rightarrow> (Inl x, s1)
                | (Inr h, s1) \<Rightarrow>
                    (case ManifestHandler_create h paper s1 of
                       (Inl x, s2) \<Rightarrow> (Inl x, s2)
                     | (Inr mh, s2) \<Rightarrow>
                         (case save_e_signatures rejects mh e_sigs
                                 (log_msg DEBUG ''ManifestHandler created {manifest_handler}'' s2) of
                            (Inl x, s3) \<Rightarrow> (Inl x, s3)
                          | (Inr u, s3) \<Rightarrow> (Inr (Some mh), s3))))))"

text \<open>
  Lines 164--170 of \<open>ManifestHandlerManager.save\<close>, before the \<open>try\<close> block: the
  e-signature entries are taken out of the payload, and the paper signature, when the
  payload has one, is created.
\<close>

definition pop_signatures ::
  "manifest_handler_data \<Rightarrow> store \<Rightarrow> signature_data list \<times> signature_data row option \<times> store" where
  "pop_signatures handler_data s =
     (let e_sigs = (case mhd_e_signatures handler_data of None \<Rightarrow> [] | Some l \<Rightarrow> l);
          s0 = log_msg DEBUG ''e_signature data {e_signatures}'' s
      in case mhd_paper_signature handler_data of
           None \<Rightarrow> (e_sigs, None, s0)
         | Some d \<Rightarrow> (let (p, s') = PaperSignature_create d s0 in (e_sigs, Some p, s')))"

text \<open>
  \<open>ManifestHandlerManager.save\<close> (lines 163--195). A \<open>KeyError\<close> of the \<open>try\<close> block
  is logged and the method returns \<open>None\<close>; a \<open>ValidationError\<close> is logged and raised
  again; any other exception leaves the method.
\<close>

definition ManifestHandlerManager_save ::
  "(signature_data \<Rightarrow> exn option) \<Rightarrow> manifest_handler_data \<Rightarrow> store \<Rightarrow>
   (exn + manifest_handler_fields row option) \<times> store" where
  "ManifestHandlerManager_save rejects handler_data s =
     (case pop_signatures handler_data s of
        (e_sigs, paper, s1) \<Rightarrow>
          (case ManifestHandlerManager_save_body rejects paper e_sigs handler_data s1 of
             (Inl (KeyError k), s') \<Rightarrow>
               (Inr None, log_msg WARNING ''KeyError while creating Manifest handler {exc}'' s')
           | (Inl (ValidationError k), s') \<Rightarrow>
               (Inl (ValidationError k),
                log_msg WARNING ''ValidationError while creating Manifest handler {exc}'' s')
           | r \<Rightarrow> r))"

text \<open>\<open>ESignature.objects.filter(manifest_handler=self).exists()\<close>.\<close>

definition e_signature_exists :: "store \<Rightarrow> manifest_handler_fields row \<Rightarrow> bool" where
  "e_signature_exists s mh =
     (filter (\<lambda>e. es_manifest_handler (snd e) = fst mh) (e_signatures s) \<noteq> [])"

text \<open>The property \<open>ManifestHandler.signed\<close> (lines 219--224).\<close>

definition signed :: "store \<Rightarrow> manifest_handler_fields row \<Rightarrow> bool" where
  "signed s mh =
     (let e_signature_exists = e_signature_exists s mh;
          paper_signature_exists = (paper_signature (snd mh) \<noteq> None)
      in paper_signature_exists \<or> e_signature_exists)"

section \<open>ManifestService\<close>

text \<open>
  The response of the RCRAInfo client: \<open>response.ok\<close> and \<open>response.json()\<close>.
\<close>

record response =
  ok :: bool
  body :: json

text \<open>
  \<open>RcrainfoService\<close> is a collaborator (\<open>rcrainfo_service.py\<close>): its two calls are
  parameters, over the state \<open>'r\<close> of the remote system, which a call may change.
\<close>

record 'r rcrainfo =
  get_manifest :: "'r \<Rightarrow> string \<Rightarrow> response \<times> 'r"
  search_mtn :: "'r \<Rightarrow> (string \<times> string) list \<Rightarrow> response \<times> 'r"

text \<open>
  \<open>ManifestSerializer\<close> is a collaborator (\<open>serializers\<close>): \<open>is_valid()\<close>, \<open>errors\<close> and
  \<open>save()\<close> of the serializer built on a document are parameters; \<open>save\<close> writes to
  the database and returns the Manifest or raises.
\<close>

record serializer =
  is_valid :: "json \<Rightarrow> bool"
  errors :: "json \<Rightarrow> json"
  save :: "json \<Rightarrow> store \<Rightarrow> (exn + manifest_fields row) \<times> store"

text \<open>
  \<open>ManifestService._retrieve_manifest\<close> (lines 31--38).
\<close>

definition retrieve_manifest ::
  "'r rcrainfo \<Rightarrow> string \<Rightarrow> store \<times> 'r \<Rightarrow> (exn + json) \<times> store \<times> 'r" where
  "retrieve_manifest rc m = (\<lambda>(s, r).
     (let (resp, r') = get_manifest rc r m in
      if ok resp then (Inr (body resp), log_msg DEBUG ''manifest pulled {mtn}'' s, r')
      else (Inl (RequestException (body resp)),
            log_msg WARNING ''error retrieving manifest {mtn}'' s, r')))"

text \<open>
  \<open>transaction.atomic\<close> around a function: when the function raises, the database is
  rolled back to what it was on entry; the log records stay written.
\<close>

definition atomic :: "(store \<Rightarrow> (exn + 'a) \<times> store) \<Rightarrow> store \<Rightarrow> (exn + 'a) \<times> store" where
  "atomic f s =
     (case f s of
        (Inl x, s') \<Rightarrow> (Inl x, s\<lparr>logs := logs s'\<rparr>)
      | (Inr v, s') \<Rightarrow> (Inr v, s'))"

text \<open>
  \<open>ManifestService._save_manifest\<close> (lines 40--50).
\<close>

definition save_manifest ::
  "serializer \<Rightarrow> json \<Rightarrow> store \<Rightarrow> (exn + manifest_fields row) \<times> store" where
  "save_manifest ser manifest_json =
     atomic (\<lambda>s.
       if is_valid ser manifest_json then
         (case save ser manifest_json (log_msg DEBUG ''manifest serializer is valid'' s) of
            (Inl x, s') \<Rightarrow> (Inl x, s')
          | (Inr manifest, s') \<Rightarrow> (Inr manifest, log_msg INFO ''saved manifest {manifest.mtn}'' s'))
       else
         (Inl (Exception (errors ser manifest_json)),
          log_msg WARNING ''malformed serializer data: {serializer.errors}'' s))"

text \<open>
  Modelled from the spec: \<open>ManifestSerializer.save\<close> (\<open>serializers\<close>) and the Manifest
  manager it saves through are the manifest validator and persister of section 6: on
  success it persists the full manifest graph, delegating the nested handler data to
  \<open>ManifestHandlerManager.save\<close>, and returns the created Manifest. \<open>save_handlers\<close>
  hands the handler payloads of the document to \<open>ManifestHandlerManager.save\<close> in
  their order. A Manifest lists its ManifestHandlers (section 3) and a failure anywhere
  in assembly fails the manifest (section 4.7), so a payload for which the call returns
  no ManifestHandler fails the save, as an exception of the call does.
\<close>

fun save_handlers ::
  "(signature_data \<Rightarrow> exn option) \<Rightarrow> manifest_handler_data list \<Rightarrow> store \<Rightarrow>
   (exn + manifest_handler_fields row list) \<times> store" where
  "save_handlers rejects [] s = (Inr [], s)"
| "save_handlers rejects (d # ds) s =
     (case ManifestHandlerManager_save rejects d s of
        (Inl x, s1) \<Rightarrow> (Inl x, s1)
      | (Inr None, s1) \<Rightarrow> (Inl (IntegrityError ''manifest_handler''), s1)
      | (Inr (Some mh), s1) \<Rightarrow>
          (case save_handlers rejects ds s1 of
             (Inl x, s2) \<Rightarrow> (Inl x, s2)
           | (Inr mhs, s2) \<Rightarrow> (Inr (mh # mhs), s2)))"

text \<open>
  Modelled from the spec: the Manifest row, with its tracking number and the
  ManifestHandlers it lists; \<open>mtn\<close> uniquely identifies a Manifest (section 3).
\<close>

definition Manifest_create ::
  "string \<Rightarrow> manifest_handler_fields row list \<Rightarrow> store \<Rightarrow> (exn + manifest_fields row) \<times> store" where
  "Manifest_create m mhs s =
     (if filter (\<lambda>r. mtn (snd r) = m) (manifests s) \<noteq> [] then (Inl (IntegrityError ''mtn''), s)
      else
        (let (new, t) = insert_row \<lparr>mtn = m, manifest_handler_refs = map fst mhs\<rparr> (manifests s)
         in (Inr new, s\<lparr>manifests := t\<rparr>)))"

text \<open>
  Modelled from the spec: \<open>ManifestSerializer\<close> as a whole. The validation of the
  fields of a document is the collaborator's own (section 1): \<open>validated j\<close> is the
  validated data of the document \<open>j\<close>, its tracking number and its handler payloads,
  or \<open>None\<close> when the document is not valid, and \<open>errs j\<close> its field errors.
\<close>

definition ManifestSerializer ::
  "(signature_data \<Rightarrow> exn option) \<Rightarrow> (json \<Rightarrow> (string \<times> manifest_handler_data list) option) \<Rightarrow>
   (json \<Rightarrow> json) \<Rightarrow> serializer" where
  "ManifestSerializer rejects validated errs =
     \<lparr>is_valid = (\<lambda>j. validated j \<noteq> None),
      errors = errs,
      save = (\<lambda>j s. case validated j of
                None \<Rightarrow> (Inl (Exception (errs j)), s)
              | Some (m, ds) \<Rightarrow>
                  (case save_handlers rejects ds s of
                     (Inl x, s1) \<Rightarrow> (Inl x, s1)
                   | (Inr mhs, s1) \<Rightarrow> Manifest_create m mhs s1))\<rparr>"

text \<open>The dictionary \<open>results\<close> of \<open>pull_manifests\<close>, with its two keys.\<close>

record pull_results =
  success :: "string list"
  error :: "string list"

text \<open>
  The body of the loop of \<open>pull_manifests\<close> (lines 121--127), for one tracking number.
\<close>

definition pull_one ::
  "'r rcrainfo \<Rightarrow> serializer \<Rightarrow> string \<Rightarrow> pull_results \<times> store \<times> 'r \<Rightarrow> pull_results \<times> store \<times> 'r" where
  "pull_one rc ser m = (\<lambda>(results, s, r).
     (case retrieve_manifest rc m (s, r) of
        (Inl exc, s1, r1) \<Rightarrow>
          (results\<lparr>error := error results @ [m]\<rparr>,
           log_msg WARNING ''error pulling manifest {mtn}: {exc}'' s1, r1)
      | (Inr manifest_json, s1, r1) \<Rightarrow>
          (case save_manifest ser manifest_json s1 of
             (Inl exc, s2) \<Rightarrow>
               (results\<lparr>error := error results @ [m]\<rparr>,
                log_msg WARNING ''error pulling manifest {mtn}: {exc}'' s2, r1)
           | (Inr manifest, s2) \<Rightarrow>
               (results\<lparr>success := success results @ [mtn (snd manifest)]\<rparr>, s2, r1))))"

fun pull_loop ::
  "'r rcrainfo \<Rightarrow> serializer \<Rightarrow> string list \<Rightarrow> pull_results \<times> store \<times> 'r \<Rightarrow> pull_results \<times> store \<times> 'r" where
  "pull_loop rc ser [] st = st"
| "pull_loop rc ser (m # ms) st = pull_loop rc ser ms (pull_one rc ser m st)"

text \<open>\<open>ManifestService.pull_manifests\<close> (lines 111--128).\<close>

definition pull_manifests ::
  "'r rcrainfo \<Rightarrow> serializer \<Rightarrow> string list \<Rightarrow> store \<times> 'r \<Rightarrow> pull_results \<times> store \<times> 'r" where
  "pull_manifests rc ser tracking_numbers = (\<lambda>(s, r).
     pull_loop rc ser tracking_numbers (\<lparr>success = [], error = []\<rparr>, s, r))"

section \<open>Dates of the search window\<close>

text \<open>
  The part of Python's \<open>datetime\<close> that \<open>search_rcra_mtn\<close> uses: the fields of a
  \<open>datetime\<close>, \<open>replace(tzinfo=timezone.utc)\<close>, the subtraction of a \<open>timedelta\<close>
  (through the proleptic Gregorian ordinal of the date, as the library does) and
  \<open>strftime\<close> for the one format of line 75.
\<close>

datatype tz = utc

record datetime =
  dt_year :: int
  dt_month :: int
  dt_day :: int
  dt_hour :: int
  dt_minute :: int
  dt_second :: int
  dt_microsecond :: int
  dt_tzinfo :: "tz option"

record timedelta =
  td_days :: int
  td_seconds :: int
  td_microseconds :: int

definition is_leap :: "int \<Rightarrow> bool" where
  "is_leap y = (y mod 4 = 0 \<and> (y mod 100 \<noteq> 0 \<or> y mod 400 = 0))"

definition days_before_year :: "int \<Rightarrow> int" where
  "days_before_year year = (let y = year - 1 in y * 365 + y div 4 - y div 100 + y div 400)"

definition DAYS_IN_MONTH :: "int list" where
  "DAYS_IN_MONTH = [-1, 31, 28, 31, 30, 31, 30, 31, 31, 30, 31, 30, 31]"

definition DAYS_BEFORE_MONTH :: "int list" where
  "DAYS_BEFORE_MONTH = [-1, 0, 31, 59, 90, 120, 151, 181, 212, 243, 273, 304, 334]"

definition days_in_month :: "int \<Rightarrow> int \<Rightarrow> int" where
  "days_in_month year month =
     (if month = 2 \<and> is_leap year then 29 else DAYS_IN_MONTH ! nat month)"

definition days_before_month :: "int \<Rightarrow> int \<Rightarrow> int" where
  "days_before_month year month =
     DAYS_BEFORE_MONTH ! nat month + (if month > 2 \<and> is_leap year then 1 else 0)"

definition ymd2ord :: "int \<Rightarrow> int \<Rightarrow> int \<Rightarrow> int" where
  "ymd2ord year month day = days_before_year year + days_before_month year month + day"

definition ord2ymd :: "int \<Rightarrow> int \<times> int \<times> int" where
  "ord2ymd ordinal =
     (let n = ordinal - 1;
          n400 = n div 146097; n = n mod 146097;
          n100 = n div 36524; n = n mod 36524;
          n4 = n div 1461; n = n mod 1461;
          n1 = n div 365; n = n mod 365;
          year = n400 * 400 + 1 + n100 * 100 + n4 * 4 + n1
      in if n1 = 4 \<or> n100 = 4 then (year - 1, 12, 31)
         else
           (let leapyear = (n1 = 3 \<and> (n4 \<noteq> 24 \<or> n100 = 3));
                month = (n + 50) div 32;
                preceding = DAYS_BEFORE_MONTH ! nat month + (if month > 2 \<and> leapyear then 1 else 0)
            in if preceding > n
               then (year, month - 1, n - (preceding - days_in_month year (month - 1)) + 1)
               else (year, month, n - preceding + 1)))"

text \<open>\<open>timedelta(minutes=m)\<close>, normalised to days and seconds.\<close>

definition timedelta_minutes :: "int \<Rightarrow> timedelta" where
  "timedelta_minutes m =
     \<lparr>td_days = (m * 60) div 86400, td_seconds = (m * 60) mod 86400, td_microseconds = 0\<rparr>"

definition replace_tzinfo :: "tz \<Rightarrow> datetime \<Rightarrow> datetime" where
  "replace_tzinfo z d = d\<lparr>dt_tzinfo := Some z\<rparr>"

text \<open>
  \<open>datetime - timedelta\<close>: the result keeps the time zone; a date outside the years
  1 to 9999 raises \<open>OverflowError\<close>.
\<close>

definition datetime_sub :: "datetime \<Rightarrow> timedelta \<Rightarrow> exn + datetime" where
  "datetime_sub d t =
     (let us = ((ymd2ord (dt_year d) (dt_month d) (dt_day d) - td_days t) * 86400
                  + dt_hour d * 3600 + dt_minute d * 60 + dt_second d - td_seconds t) * 1000000
                + dt_microsecond d - td_microseconds t;
          days = us div 86400000000;
          secs = (us mod 86400000000) div 1000000
      in if 0 < days \<and> days \<le> 3652059 then
           (case ord2ymd days of (y, m, dd) \<Rightarrow>
              Inr \<lparr>dt_year = y, dt_month = m, dt_day = dd,
                   dt_hour = secs div 3600, dt_minute = (secs mod 3600) div 60,
                   dt_second = secs mod 60, dt_microsecond = us mod 1000000,
                   dt_tzinfo = dt_tzinfo d\<rparr>)
         else Inl OverflowError)"

fun decimal :: "nat \<Rightarrow> string" where
  "decimal n = (if n < 10 then [''0123456789'' ! n]
                else decimal (n div 10) @ [''0123456789'' ! (n mod 10)])"

definition two_digits :: "int \<Rightarrow> string" where
  "two_digits i = (if i < 10 then ''0'' @ decimal (nat i) else decimal (nat i))"

text \<open>
  \<open>strftime("%Y-%m-%dT%H:%M:%SZ")\<close>: the year in decimal, the other fields on two digits.
\<close>

definition strftime :: "datetime \<Rightarrow> string" where
  "strftime d =
     decimal (nat (dt_year d)) @ ''-'' @ two_digits (dt_month d) @ ''-'' @ two_digits (dt_day d)
     @ ''T'' @ two_digits (dt_hour d) @ '':'' @ two_digits (dt_minute d) @ '':''
     @ two_digits (dt_second d) @ ''Z''"

section \<open>The search query\<close>

text \<open>
  The keyword arguments of \<open>search_rcra_mtn\<close>: \<open>None\<close> is the default of every argument
  but \<open>date_type\<close>, whose default is \<open>"UpdatedDate"\<close>; for it \<open>None\<close> says that the caller
  did not pass the argument and \<open>Some None\<close> that the caller passed \<open>None\<close>.
\<close>

record search_args =
  arg_site_id :: "string option"
  arg_start_date :: "datetime option"
  arg_end_date :: "datetime option"
  arg_status :: "string option"
  arg_date_type :: "string option option"
  arg_state_code :: "string option"
  arg_site_type :: "string option"

text \<open>The dict comprehension of line 101, on the items in the order of the dict.\<close>

fun remove_none :: "(string \<times> string option) list \<Rightarrow> (string \<times> string) list" where
  "remove_none [] = []"
| "remove_none ((k, None) # xs) = remove_none xs"
| "remove_none ((k, Some v) # xs) = (k, v) # remove_none xs"

text \<open>
  Lines 75--101 of \<open>search_rcra_mtn\<close>: the payload \<open>filtered_params\<close>. \<open>now_end\<close> and
  \<open>now_start\<close> are what \<open>datetime.utcnow()\<close> returns at line 79 and at line 85.
\<close>

definition filtered_params ::
  "search_args \<Rightarrow> datetime \<Rightarrow> datetime \<Rightarrow> exn + (string \<times> string) list" where
  "filtered_params a now_end now_start =
     (let date_type = (case arg_date_type a of None \<Rightarrow> Some ''UpdatedDate'' | Some t \<Rightarrow> t);
          end_date = (case arg_end_date a of
                        Some d \<Rightarrow> strftime (replace_tzinfo utc d)
                      | None \<Rightarrow> strftime (replace_tzinfo utc now_end))
      in case (case arg_start_date a of
                 Some d \<Rightarrow> Inr (strftime (replace_tzinfo utc d))
               | None \<Rightarrow>
                   map_sum id strftime
                     (datetime_sub (replace_tzinfo utc now_start)
                        (timedelta_minutes (60 * 24 * 30 * 12))))
         of
           Inl x \<Rightarrow> Inl x
         | Inr start_date \<Rightarrow>
             Inr (remove_none
                   [(''stateCode'', arg_state_code a),
                    (''siteId'', arg_site_id a),
                    (''status'', arg_status a),
                    (''dateType'', date_type),
                    (''siteType'', arg_site_type a),
                    (''endDate'', Some end_date),
                    (''startDate'', Some start_date)]))"

text \<open>\<open>ManifestService.search_rcra_mtn\<close> (lines 52--109).\<close>

definition search_rcra_mtn ::
  "'r rcrainfo \<Rightarrow> search_args \<Rightarrow> datetime \<Rightarrow> datetime \<Rightarrow> store \<times> 'r \<Rightarrow> (exn + json) \<times> store \<times> 'r" where
  "search_rcra_mtn rc a now_end now_start = (\<lambda>(s, r).
     (case filtered_params a now_end now_start of
        Inl x \<Rightarrow> (Inl x, s, r)
      | Inr params \<Rightarrow>
          (let s1 = log_msg DEBUG ''rcrainfo manifest search parameters {filtered_params}'' s;
               (resp, r') = search_mtn rc r params;
               s2 = log_msg DEBUG ''rcrainfo manifest search response {response.json()}'' s1
           in (Inr (if ok resp then body resp else JArr []), s2, r'))))"

section \<open>Example data\<close>

definition empty_store :: store where
  "empty_store =
     \<lparr>addresses = [], phones = [], contacts = [], handlers = [], paper_signatures = [],
      e_signatures = [], manifest_handlers = [], manifests = [], logs = []\<rparr>"

definition example_address :: address_data where
  "example_address =
     \<lparr>addr_street = ''1 Main St'', addr_city = ''Richmond'', addr_state = ''VA'',
      addr_zip = ''23219''\<rparr>"

definition example_phone :: phone_data where
  "example_phone = \<lparr>phone_number = ''555-0100'', phone_extension = None\<rparr>"

definition example_signature :: signature_data where
  "example_signature = \<lparr>signer = ''J. Doe'', sign_date = ''2023-01-01''\<rparr>"

text \<open>A database that holds one address.\<close>

definition example_store :: store where
  "example_store = empty_store\<lparr>addresses := [(1, example_address)]\<rparr>"

text \<open>
  A complete handler payload: raw fields for the site address, a reference to the stored
  address for the mailing address.
\<close>

definition example_handler_data :: handler_data where
  "example_handler_data =
     \<lparr>hd_epa_id = Some ''VAT000000000'', hd_name = Some ''Generator'',
      hd_site_type = Some ''Generator'', hd_contact = Some (''Jane'', None),
      hd_emergency_phone = Some (Some example_phone),
      hd_site_address = Some (RawAddress example_address),
      hd_mail_address = Some (AddressRef (1, example_address)),
      hd_modified = None, hd_registered = None, hd_gis_primary = None, hd_can_esign = None,
      hd_limited_esign = None, hd_registered_emanifest_user = None\<rparr>"

text \<open>The handler that the payload creates in \<open>example_store\<close>, and the database with it.\<close>

definition example_handler :: "handler_fields row" where
  "example_handler =
     (1, \<lparr>site_type = Some ''Generator'', epa_id = ''VAT000000000'', name = ''Generator'',
          site_address = 2, mail_address = 1, modified = None, registered = None, contact = 1,
          emergency_phone = Some 1, gis_primary = Some False, can_esign = None,
          limited_esign = None, registered_emanifest_user = Some False\<rparr>)"

definition example_store_handler :: store where
  "example_store_handler =
     empty_store
       \<lparr>addresses := [(1, example_address), (2, example_address)],
        phones := [(1, example_phone)],
        contacts := [(1, \<lparr>contact_name = ''Jane'', contact_phone = None\<rparr>)],
        handlers := [example_handler]\<rparr>"

text \<open>A ManifestHandler payload around a handler payload, with no signature.\<close>

definition example_manifest_handler_data :: "handler_data \<Rightarrow> manifest_handler_data" where
  "example_manifest_handler_data hdat =
     \<lparr>mhd_e_signatures = None, mhd_paper_signature = None, mhd_handler = Some hdat\<rparr>"

text \<open>
  A payload with a paper signature, one e-signature and the complete handler payload,
  and the store after it is saved in \<open>example_store\<close>.
\<close>

definition example_signed_data :: manifest_handler_data where
  "example_signed_data =
     \<lparr>mhd_e_signatures = Some [example_signature],
      mhd_paper_signature = Some example_signature,
      mhd_handler = Some example_handler_data\<rparr>"

definition example_store_signed :: store where
  "example_store_signed =
     example_store_handler
       \<lparr>paper_signatures := [(1, example_signature)],
        e_signatures := [(1, \<lparr>es_manifest_handler = 1, es_data = example_signature\<rparr>)],
        manifest_handlers := [(1, \<lparr>handler = 1, paper_signature = Some 1\<rparr>)],
        logs := [(DEBUG, ''e_signature data {e_signatures}''),
                 (DEBUG, ''Handler created {handler}''),
                 (DEBUG, ''ManifestHandler created {manifest_handler}''),
                 (DEBUG, ''ESignature created {e_sig}'')]\<rparr>"

text \<open>A payload with a paper signature and no \<open>handler\<close> key.\<close>

definition example_no_handler_data :: manifest_handler_data where
  "example_no_handler_data =
     \<lparr>mhd_e_signatures = None, mhd_paper_signature = Some example_signature,
      mhd_handler = None\<rparr>"

text \<open>
  Collaborators of the service. A document of the example remote systems is the
  tracking number alone; \<open>example_serializer\<close> accepts such a document and stores a
  Manifest with that number. \<open>example_rcrainfo\<close> has every manifest but
  \<open>000000000ELC\<close>; \<open>flaky_rcrainfo\<close> answers its first request only;
  \<open>renumbering_rcrainfo\<close> answers every request with the manifest \<open>100000001ELC\<close>.
  The state of a remote system is the number of requests it has served.
\<close>

definition example_serializer :: serializer where
  "example_serializer =
     \<lparr>is_valid = (\<lambda>j. case j of JStr m \<Rightarrow> True | _ \<Rightarrow> False),
      errors = (\<lambda>j. JStr ''not a manifest''),
      save = (\<lambda>j s. case j of
                JStr m \<Rightarrow>
                  (let (new, t) = insert_row \<lparr>mtn = m, manifest_handler_refs = []\<rparr> (manifests s)
                   in (Inr new, s\<lparr>manifests := t\<rparr>))
              | _ \<Rightarrow> (Inl (KeyError ''manifestTrackingNumber''), s))\<rparr>"

definition example_rcrainfo :: "nat rcrainfo" where
  "example_rcrainfo =
     \<lparr>get_manifest = (\<lambda>r m. (\<lparr>ok = (m \<noteq> ''000000000ELC''), body = JStr m\<rparr>, Suc r)),
      search_mtn = (\<lambda>r p. (\<lparr>ok = True, body = JArr []\<rparr>, Suc r))\<rparr>"

definition flaky_rcrainfo :: "nat rcrainfo" where
  "flaky_rcrainfo =
     \<lparr>get_manifest = (\<lambda>r m. (\<lparr>ok = (r = 0), body = JStr m\<rparr>, Suc r)),
      search_mtn = (\<lambda>r p. (\<lparr>ok = True, body = JArr []\<rparr>, Suc r))\<rparr>"

definition renumbering_rcrainfo :: "nat rcrainfo" where
  "renumbering_rcrainfo =
     \<lparr>get_manifest = (\<lambda>r m. (\<lparr>ok = True, body = JStr ''100000001ELC''\<rparr>, Suc r)),
      search_mtn = (\<lambda>r p. (\<lparr>ok = True, body = JArr []\<rparr>, Suc r))\<rparr>"

text \<open>
  The payload \<open>example_signed_data\<close> with a second e-signature entry whose signer is
  empty, and two behaviours of \<open>ESignature.objects.save\<close> on such an entry.
\<close>

definition example_two_signatures_data :: manifest_handler_data where
  "example_two_signatures_data =
     example_signed_data
       \<lparr>mhd_e_signatures := Some [example_signature, example_signature\<lparr>signer := []\<rparr>]\<rparr>"

definition rejects_with_KeyError :: "signature_data \<Rightarrow> exn option" where
  "rejects_with_KeyError d = (if signer d = [] then Some (KeyError ''signer'') else None)"


text \<open>
  Validated data for the examples: a document that is a tracking number validates to
  that number with the one handler payload \<open>example_two_signatures_data\<close>.
\<close>

definition example_validated :: "json \<Rightarrow> (string \<times> manifest_handler_data list) option" where
  "example_validated j =
     (case j of JStr m \<Rightarrow> Some (m, [example_two_signatures_data]) | _ \<Rightarrow> None)"

text \<open>A reading of the clock, and a call of the search that passes no argument.\<close>

definition example_now :: datetime where
  "example_now =
     \<lparr>dt_year = 2023, dt_month = 1, dt_day = 1, dt_hour = 12, dt_minute = 30, dt_second = 45,
      dt_microsecond = 0, dt_tzinfo = None\<rparr>"

definition no_search_args :: search_args where
  "no_search_args =
     \<lparr>arg_site_id = None, arg_start_date = None, arg_end_date = None, arg_status = None,
      arg_date_type = None, arg_state_code = None, arg_site_type = None\<rparr>"

section \<open>Tables and frame lemmas\<close>

lemma fresh_pk_bound: "r \<in> set t \<Longrightarrow> fst r < fresh_pk t"
  unfolding fresh_pk_def by (induction t) (auto simp: less_Suc_eq_le max_def)

lemma fresh_pk_notin: "fresh_pk t \<notin> fst ` set t"
  using fresh_pk_bound by fastforce

lemma Contact_save_handlers [simp]: "handlers (snd (Contact_save c s)) = handlers s"
  by (auto simp: Contact_save_def EpaPhone_create_def insert_row_def Let_def
      split: option.splits prod.splits)

lemma get_emergency_phone_frame:
  "get_emergency_phone (s, d) = (p, s', d') \<Longrightarrow>
     handlers s' = handlers s \<and> hd_epa_id d' = hd_epa_id d \<and>
     hd_site_address d' = hd_site_address d \<and> hd_mail_address d' = hd_mail_address d"
  by (auto simp: get_emergency_phone_def EpaPhone_create_def insert_row_def Let_def log_msg_def
      split: option.splits prod.splits)

lemma get_address_frame:
  "get_address k (s, d) = (r, s', d') \<Longrightarrow>
     handlers s' = handlers s \<and> hd_epa_id d' = hd_epa_id d"
  by (cases k) (auto simp: get_address_def Address_create_def insert_row_def Let_def log_msg_def
      split: option.splits prod.splits address_input.splits)

lemma Handler_create_Inr:
  "Handler_create site mail phone c d s = (Inr h, s') \<Longrightarrow> hd_epa_id d = Some e \<Longrightarrow>
     Handler_filter (Some e) s = [] \<and> handlers s' = handlers s @ [h] \<and> epa_id (snd h) = e"
  by (auto simp: Handler_create_def Handler_filter_def insert_row_def Let_def split: if_splits)

lemma pop_signatures_tables:
  "pop_signatures d s = (es, paper, s1) \<Longrightarrow>
     handlers s1 = handlers s \<and> manifest_handlers s1 = manifest_handlers s"
  by (auto simp: pop_signatures_def PaperSignature_create_def insert_row_def Let_def log_msg_def
      split: option.splits)

section \<open>The signed property\<close>

text \<open>
  C9: \<open>ManifestHandler.signed\<close> is true if and only if the ManifestHandler has a paper
  signature or at least one ESignature references it.
\<close>

theorem signed_iff:
  "signed s mh \<longleftrightarrow>
     paper_signature (snd mh) \<noteq> None \<or>
     (\<exists>e \<in> set (e_signatures s). es_manifest_handler (snd e) = fst mh)"
  by (auto simp: signed_def e_signature_exists_def filter_empty_conv)

text \<open>
  The four cases of C9 on ManifestHandler 5: paper signature only, one ESignature only,
  both, neither.
\<close>

theorem signed_iff_witness:
  "signed empty_store (5, \<lparr>handler = 1, paper_signature = Some 3\<rparr>) \<and>
   signed (empty_store\<lparr>e_signatures := [(1, \<lparr>es_manifest_handler = 5, es_data = example_signature\<rparr>)]\<rparr>)
     (5, \<lparr>handler = 1, paper_signature = None\<rparr>) \<and>
   signed (empty_store\<lparr>e_signatures := [(1, \<lparr>es_manifest_handler = 5, es_data = example_signature\<rparr>)]\<rparr>)
     (5, \<lparr>handler = 1, paper_signature = Some 3\<rparr>) \<and>
   \<not> signed (empty_store\<lparr>e_signatures := [(1, \<lparr>es_manifest_handler = 4, es_data = example_signature\<rparr>)]\<rparr>)
     (5, \<lparr>handler = 1, paper_signature = None\<rparr>)"
  using signed_iff [of empty_store "(5, \<lparr>handler = 1, paper_signature = Some 3\<rparr>)"]
    signed_iff [of "empty_store\<lparr>e_signatures := [(1, \<lparr>es_manifest_handler = 5, es_data = example_signature\<rparr>)]\<rparr>"
      "(5, \<lparr>handler = 1, paper_signature = None\<rparr>)"]
    signed_iff [of "empty_store\<lparr>e_signatures := [(1, \<lparr>es_manifest_handler = 5, es_data = example_signature\<rparr>)]\<rparr>"
      "(5, \<lparr>handler = 1, paper_signature = Some 3\<rparr>)"]
    signed_iff [of "empty_store\<lparr>e_signatures := [(1, \<lparr>es_manifest_handler = 4, es_data = example_signature\<rparr>)]\<rparr>"
      "(5, \<lparr>handler = 1, paper_signature = None\<rparr>)"]
  by (simp add: empty_store_def)

section \<open>Address resolution\<close>

text \<open>
  C10: when the value under the address key is an existing Address, \<open>get_address\<close>
  returns that Address and leaves the store as it is; when it is raw field data,
  \<open>get_address\<close> appends exactly one row to the Address table, with the raw fields and a
  key that no earlier row has, and returns it.
\<close>

theorem get_address_reuse_or_create:
  "(pop_address key hdat = Some (AddressRef a, hdat') \<longrightarrow>
      get_address key (s, hdat) = (Inr a, s, hdat')) \<and>
   (pop_address key hdat = Some (RawAddress d, hdat') \<longrightarrow>
      (\<exists>new. get_address key (s, hdat) = (Inr new, s\<lparr>addresses := addresses s @ [new]\<rparr>, hdat')
         \<and> snd new = d \<and> fst new \<notin> fst ` set (addresses s)))"
  by (auto simp: get_address_def Address_create_def insert_row_def Let_def fresh_pk_notin)

theorem get_address_reuse_or_create_witness:
  "get_address mail_address_key (example_store, example_handler_data) =
     (Inr (1, example_address), example_store, example_handler_data\<lparr>hd_mail_address := None\<rparr>) \<and>
   (\<exists>new. get_address site_address_key (example_store, example_handler_data) =
       (Inr new, example_store\<lparr>addresses := addresses example_store @ [new]\<rparr>,
        example_handler_data\<lparr>hd_site_address := None\<rparr>)
      \<and> snd new = example_address \<and> fst new \<notin> fst ` set (addresses example_store))"
  using get_address_reuse_or_create [of mail_address_key example_handler_data
      "(1, example_address)" "example_handler_data\<lparr>hd_mail_address := None\<rparr>" example_store]
    get_address_reuse_or_create [of site_address_key example_handler_data _
      "example_handler_data\<lparr>hd_site_address := None\<rparr>" example_store example_address]
  by (simp add: example_handler_data_def)

section \<open>Handler get-or-create\<close>

lemma HandlerManager_save_body_Some:
  assumes "HandlerManager_save_body d s = (Inr (Some h), s1)" and "hd_epa_id d = Some e"
  shows "Handler_filter (Some e) s1 = [h]"
proof (cases "Handler_exists (Some e) s")
  case True
  with assms show ?thesis
    by (auto simp: HandlerManager_save_body_def Handler_get_def split: sum.splits list.splits)
next
  case False
  with assms obtain c where c: "hd_contact d = Some c"
    by (auto simp: HandlerManager_save_body_def split: option.splits)
  obtain nc sa where cs: "Contact_save c s = (nc, sa)" by fastforce
  obtain p sb db where ep: "get_emergency_phone (sa, d\<lparr>hd_contact := None\<rparr>) = (p, sb, db)"
    by (metis prod_cases3)
  from assms False c cs ep obtain site sc dc where
    ga1: "get_address site_address_key (sb, db) = (Inr site, sc, dc)"
    by (auto simp: HandlerManager_save_body_def split: prod.splits sum.splits)
  from assms False c cs ep ga1 obtain mail sd dd where
    ga2: "get_address mail_address_key (sc, dc) = (Inr mail, sd, dd)"
    by (auto simp: HandlerManager_save_body_def split: prod.splits sum.splits)
  from assms False c cs ep ga1 ga2 have
    hc: "Handler_create site mail p nc dd sd = (Inr h, s1)"
    by (auto simp: HandlerManager_save_body_def split: prod.splits sum.splits)
  have e: "hd_epa_id dd = Some e"
    using get_emergency_phone_frame[OF ep] get_address_frame[OF ga1] get_address_frame[OF ga2]
      assms(2)
    by simp
  from Handler_create_Inr[OF hc e] show ?thesis
    by (simp add: Handler_filter_def)
qed

lemma HandlerManager_save_Some:
  "HandlerManager_save d s = (Inr (Some h), s1) \<Longrightarrow>
     HandlerManager_save_body d s = (Inr (Some h), s1)"
  by (auto simp: HandlerManager_save_def split: prod.splits sum.splits exn.splits)

text \<open>
  C2: when \<open>HandlerManager.save\<close> has returned a Handler for an \<open>epa_id\<close>, a second call
  with the same \<open>epa_id\<close>, whatever its other fields, returns the same Handler and leaves
  the store exactly as it was: no new Address, Contact or EpaPhone, no change to the
  Handler.
\<close>

theorem HandlerManager_save_idempotent:
  assumes "HandlerManager_save d1 s = (Inr (Some h), s1)"
    and "hd_epa_id d1 = Some e" and "hd_epa_id d2 = Some e"
  shows "HandlerManager_save d2 s1 = (Inr (Some h), s1)"
proof -
  have "Handler_filter (Some e) s1 = [h]"
    using HandlerManager_save_body_Some[OF HandlerManager_save_Some[OF assms(1)] assms(2)] .
  then show ?thesis using assms(3)
    by (simp add: HandlerManager_save_def HandlerManager_save_body_def Handler_exists_def
        Handler_get_def)
qed

lemma example_HandlerManager_save:
  "HandlerManager_save example_handler_data example_store =
     (Inr (Some example_handler), example_store_handler)"
  by code_simp

theorem HandlerManager_save_idempotent_witness:
  "HandlerManager_save example_handler_data example_store =
     (Inr (Some example_handler), example_store_handler) \<and>
   HandlerManager_save
     (example_handler_data\<lparr>hd_name := Some ''Renamed'', hd_contact := Some (''John'', Some example_phone),
        hd_site_address := Some (RawAddress (example_address\<lparr>addr_city := ''Norfolk''\<rparr>))\<rparr>)
     example_store_handler =
     (Inr (Some example_handler), example_store_handler)"
  using HandlerManager_save_idempotent [OF example_HandlerManager_save,
      of "''VAT000000000''"
         "example_handler_data\<lparr>hd_name := Some ''Renamed'', hd_contact := Some (''John'', Some example_phone),
            hd_site_address := Some (RawAddress (example_address\<lparr>addr_city := ''Norfolk''\<rparr>))\<rparr>"]
    example_HandlerManager_save
  by (simp add: example_handler_data_def)

section \<open>A missing address key\<close>

lemma get_address_missing:
  "pop_address key d = None \<Longrightarrow>
     get_address key (s, d) = (Inl (ValidationError (key_name key)), log_msg WARNING ''{exc}'' s, d)"
  by (simp add: get_address_def)

lemma get_address_site_keeps_mail:
  "get_address site_address_key (s, d) = (r, s', d') \<Longrightarrow> hd_mail_address d' = hd_mail_address d"
  by (auto simp: get_address_def Address_create_def insert_row_def Let_def
      split: option.splits prod.splits address_input.splits)

lemma HandlerManager_save_body_missing_address:
  assumes "\<not> Handler_exists (hd_epa_id d) s" and "hd_contact d = Some c"
    and "hd_site_address d = None \<or> hd_mail_address d = None"
  shows "fst (HandlerManager_save_body d s) =
           Inl (ValidationError (if hd_site_address d = None then ''site_address'' else ''mail_address''))"
proof -
  obtain nc sa where cs: "Contact_save c s = (nc, sa)" by fastforce
  obtain p sb db where ep: "get_emergency_phone (sa, d\<lparr>hd_contact := None\<rparr>) = (p, sb, db)"
    by (metis prod_cases3)
  note fr = get_emergency_phone_frame[OF ep]
  show ?thesis
  proof (cases "hd_site_address d")
    case None
    then have "pop_address site_address_key db = None" using fr by simp
    from get_address_missing[OF this] assms(1,2) cs ep None show ?thesis
      by (simp add: HandlerManager_save_body_def)
  next
    case (Some a)
    with assms(3) have mail: "hd_mail_address d = None" by simp
    obtain r sc dc where ga: "get_address site_address_key (sb, db) = (r, sc, dc)"
      by (metis prod_cases3)
    from Some fr have "pop_address site_address_key db \<noteq> None" by simp
    with ga obtain site where r: "r = Inr site"
      by (auto simp: get_address_def Address_create_def insert_row_def Let_def
          split: option.splits prod.splits address_input.splits)
    have "pop_address mail_address_key dc = None"
      using get_address_site_keeps_mail[OF ga] fr mail by simp
    from get_address_missing[OF this] assms(1,2) cs ep ga r Some show ?thesis
      by (simp add: HandlerManager_save_body_def)
  qed
qed

lemma HandlerManager_save_missing_address:
  assumes "\<not> Handler_exists (hd_epa_id d) s" and "hd_contact d = Some c"
    and "hd_site_address d = None \<or> hd_mail_address d = None"
  shows "fst (HandlerManager_save d s) =
           Inl (ValidationError (if hd_site_address d = None then ''site_address'' else ''mail_address''))"
  using HandlerManager_save_body_missing_address[OF assms]
  by (cases "HandlerManager_save_body d s") (auto simp: HandlerManager_save_def)

lemma Handler_exists_handlers: "handlers s' = handlers s \<Longrightarrow> Handler_exists e s' = Handler_exists e s"
  by (cases e) (simp_all add: Handler_exists_def Handler_filter_def)

text \<open>
  C7: when the address key is absent from the handler payload, \<open>get_address\<close> raises
  \<open>ValidationError\<close>; and when handler creation reaches address resolution (the
  \<open>epa_id\<close> is new and the contact is present) with \<open>site_address\<close> or \<open>mail_address\<close>
  absent, the \<open>ValidationError\<close> leaves \<open>HandlerManager.save\<close> and
  \<open>ManifestHandlerManager.save\<close>.
\<close>

theorem missing_address_raises_ValidationError:
  "(pop_address key hdat = None \<longrightarrow>
      fst (get_address key (s, hdat)) = Inl (ValidationError (key_name key))) \<and>
   (mhd_handler d = Some hdat \<and> hd_epa_id hdat = Some e \<and> \<not> Handler_exists (Some e) s \<and>
    hd_contact hdat = Some c \<and> (hd_site_address hdat = None \<or> hd_mail_address hdat = None) \<longrightarrow>
      fst (HandlerManager_save hdat s) =
        Inl (ValidationError (if hd_site_address hdat = None then ''site_address'' else ''mail_address'')) \<and>
      fst (ManifestHandlerManager_save rejects d s) =
        Inl (ValidationError (if hd_site_address hdat = None then ''site_address'' else ''mail_address'')))"
proof (intro conjI impI)
  assume "pop_address key hdat = None"
  then show "fst (get_address key (s, hdat)) = Inl (ValidationError (key_name key))"
    by (simp add: get_address_missing)
next
  assume a: "mhd_handler d = Some hdat \<and> hd_epa_id hdat = Some e \<and> \<not> Handler_exists (Some e) s \<and>
    hd_contact hdat = Some c \<and> (hd_site_address hdat = None \<or> hd_mail_address hdat = None)"
  then show "fst (HandlerManager_save hdat s) =
        Inl (ValidationError (if hd_site_address hdat = None then ''site_address'' else ''mail_address''))"
    using HandlerManager_save_missing_address[of hdat s c] by simp
next
  assume a: "mhd_handler d = Some hdat \<and> hd_epa_id hdat = Some e \<and> \<not> Handler_exists (Some e) s \<and>
    hd_contact hdat = Some c \<and> (hd_site_address hdat = None \<or> hd_mail_address hdat = None)"
  obtain es paper s1 where ps: "pop_signatures d s = (es, paper, s1)"
    by (metis prod_cases3)
  have h: "handlers s1 = handlers s"
    using pop_signatures_tables[OF ps] by simp
  have ne: "\<not> Handler_exists (hd_epa_id hdat) s1"
    using a Handler_exists_handlers[OF h] by simp
  from HandlerManager_save_missing_address[OF ne, of c] a
  have hs: "fst (HandlerManager_save hdat s1) =
        Inl (ValidationError (if hd_site_address hdat = None then ''site_address'' else ''mail_address''))"
    by simp
  obtain r s2 where r: "HandlerManager_save hdat s1 = (r, s2)" by fastforce
  have body: "fst (ManifestHandlerManager_save_body rejects paper es d s1) =
        Inl (ValidationError (if hd_site_address hdat = None then ''site_address'' else ''mail_address''))"
    using a ne hs r by (simp add: ManifestHandlerManager_save_body_def)
  obtain x y where xy: "ManifestHandlerManager_save_body rejects paper es d s1 = (x, y)"
    by fastforce
  with body ps
  show "fst (ManifestHandlerManager_save rejects d s) =
        Inl (ValidationError (if hd_site_address hdat = None then ''site_address'' else ''mail_address''))"
    by (simp add: ManifestHandlerManager_save_def)
qed

theorem missing_address_raises_ValidationError_witness:
  "fst (get_address mail_address_key
          (example_store, example_handler_data\<lparr>hd_mail_address := None\<rparr>)) =
     Inl (ValidationError ''mail_address'') \<and>
   fst (HandlerManager_save (example_handler_data\<lparr>hd_mail_address := None\<rparr>) example_store) =
     Inl (ValidationError ''mail_address'') \<and>
   fst (ManifestHandlerManager_save (\<lambda>d. None)
          (example_manifest_handler_data (example_handler_data\<lparr>hd_mail_address := None\<rparr>))
          example_store) =
     Inl (ValidationError ''mail_address'')"
  using missing_address_raises_ValidationError [of mail_address_key
      "example_handler_data\<lparr>hd_mail_address := None\<rparr>" example_store
      "example_manifest_handler_data (example_handler_data\<lparr>hd_mail_address := None\<rparr>)"
      "''VAT000000000''" "(''Jane'', None)" "\<lambda>d. None"]
  by (simp add: example_handler_data_def example_manifest_handler_data_def example_store_def
      empty_store_def Handler_exists_def Handler_filter_def)

section \<open>The search payload\<close>

lemma remove_none_keys:
  "map fst (remove_none xs) = map fst (filter (\<lambda>(k, v). v \<noteq> None) xs)"
  by (induction xs rule: remove_none.induct) auto

text \<open>
  C6, as the code has it: a filter whose value is \<open>None\<close> is absent from the payload,
  and the payload has no other key than the seven of the mapping, in its order.
  \<open>date_type\<close> is absent only when the caller passes \<open>None\<close> for it: left unset it is
  \<open>"UpdatedDate"\<close>. \<open>endDate\<close> and \<open>startDate\<close> are always there.
\<close>

theorem filtered_params_keys:
  assumes "filtered_params a now_end now_start = Inr ps"
  shows "map fst ps =
     (if arg_state_code a = None then [] else [''stateCode'']) @
     (if arg_site_id a = None then [] else [''siteId'']) @
     (if arg_status a = None then [] else [''status'']) @
     (if arg_date_type a = Some None then [] else [''dateType'']) @
     (if arg_site_type a = None then [] else [''siteType'']) @
     [''endDate'', ''startDate'']"
  using assms
  by (auto simp: filtered_params_def Let_def remove_none_keys split: sum.splits option.splits)

lemma example_filtered_params_status:
  "filtered_params
     (no_search_args\<lparr>arg_site_id := Some ''VAT000000000'', arg_status := Some ''Signed'',
        arg_date_type := Some None\<rparr>) example_now example_now =
   Inr [(''siteId'', ''VAT000000000''), (''status'', ''Signed''),
        (''endDate'', ''2023-01-01T12:30:45Z''), (''startDate'', ''2022-01-06T12:30:45Z'')]"
  by code_simp

theorem filtered_params_keys_witness:
  "map fst [(''siteId'', ''VAT000000000''), (''status'', ''Signed''),
            (''endDate'', ''2023-01-01T12:30:45Z''), (''startDate'', ''2022-01-06T12:30:45Z'')] =
     [''siteId'', ''status'', ''endDate'', ''startDate'']"
  using filtered_params_keys [OF example_filtered_params_status]
  by (simp add: no_search_args_def)

text \<open>
  The example of C6: with only \<open>site_id\<close> passed, the payload has the key \<open>dateType\<close>
  beside \<open>siteId\<close>, \<open>endDate\<close> and \<open>startDate\<close>.
\<close>

theorem filtered_params_site_id_only_counterexample:
  "filtered_params (no_search_args\<lparr>arg_site_id := Some ''VAT000000000''\<rparr>) example_now example_now =
   Inr [(''siteId'', ''VAT000000000''), (''dateType'', ''UpdatedDate''),
        (''endDate'', ''2023-01-01T12:30:45Z''), (''startDate'', ''2022-01-06T12:30:45Z'')]"
  by code_simp

section \<open>The default search window\<close>

text \<open>
  C5: with no \<open>start_date\<close> and no \<open>end_date\<close>, \<open>endDate\<close> is the clock's reading and
  both dates are in the fixed format, but \<open>startDate\<close> is 360 days before the reading,
  not three years: \<open>timedelta(minutes=60 * 24 * 30 * 12)\<close> is 360 days. At noon thirty
  of 1 January 2023 the window starts on 6 January 2022.
\<close>

theorem default_search_window_is_360_days:
  "timedelta_minutes (60 * 24 * 30 * 12) = \<lparr>td_days = 360, td_seconds = 0, td_microseconds = 0\<rparr> \<and>
   filtered_params no_search_args example_now example_now =
     Inr [(''dateType'', ''UpdatedDate''), (''endDate'', ''2023-01-01T12:30:45Z''),
          (''startDate'', ''2022-01-06T12:30:45Z'')]"
  by code_simp

section \<open>The handler of a ManifestHandler\<close>

lemma get_address_tables:
  "get_address k (s, d) = (r, s', d') \<Longrightarrow>
     handlers s' = handlers s \<and> manifest_handlers s' = manifest_handlers s"
  by (cases k) (auto simp: get_address_def Address_create_def insert_row_def Let_def log_msg_def
      split: option.splits prod.splits address_input.splits)

lemma get_emergency_phone_tables:
  "get_emergency_phone (s, d) = (p, s', d') \<Longrightarrow>
     handlers s' = handlers s \<and> manifest_handlers s' = manifest_handlers s"
  by (auto simp: get_emergency_phone_def EpaPhone_create_def insert_row_def Let_def log_msg_def
      split: option.splits prod.splits)

lemma Contact_save_tables:
  "Contact_save c s = (n, s') \<Longrightarrow>
     handlers s' = handlers s \<and> manifest_handlers s' = manifest_handlers s"
  by (auto simp: Contact_save_def EpaPhone_create_def insert_row_def Let_def
      split: option.splits prod.splits)

lemma Handler_create_tables:
  "Handler_create site mail phone c d s = (r, s') \<Longrightarrow>
     manifest_handlers s' = manifest_handlers s \<and>
     (case r of Inl x \<Rightarrow> handlers s' = handlers s | Inr h \<Rightarrow> handlers s' = handlers s @ [h])"
  by (auto simp: Handler_create_def insert_row_def Let_def split: if_splits)

lemma Handler_get_member: "Handler_get e s = Inr h \<Longrightarrow> h \<in> set (handlers s)"
proof -
  assume "Handler_get e s = Inr h"
  then have "Handler_filter e s = [h]"
    by (auto simp: Handler_get_def split: list.splits)
  then have "h \<in> set (Handler_filter e s)" by simp
  then show ?thesis by (cases e) (auto simp: Handler_filter_def)
qed

lemma HandlerManager_save_body_tables:
  assumes "HandlerManager_save_body d s = (r, s')"
  shows "manifest_handlers s' = manifest_handlers s \<and> set (handlers s) \<subseteq> set (handlers s') \<and>
         (\<forall>h. r = Inr (Some h) \<longrightarrow> h \<in> set (handlers s'))"
proof (cases "Handler_exists (hd_epa_id d) s")
  case True
  with assms show ?thesis
    by (auto simp: HandlerManager_save_body_def split: sum.splits dest: Handler_get_member)
next
  case False
  show ?thesis
  proof (cases "hd_contact d")
    case None
    with assms False show ?thesis by (auto simp: HandlerManager_save_body_def)
  next
    case (Some c)
    obtain nc sa where cs: "Contact_save c s = (nc, sa)" by fastforce
    obtain p sb db where ep: "get_emergency_phone (sa, d\<lparr>hd_contact := None\<rparr>) = (p, sb, db)"
      by (metis prod_cases3)
    obtain r1 sc dc where ga1: "get_address site_address_key (sb, db) = (r1, sc, dc)"
      by (metis prod_cases3)
    note t1 = Contact_save_tables[OF cs] get_emergency_phone_tables[OF ep] get_address_tables[OF ga1]
    show ?thesis
    proof (cases r1)
      case (Inl x)
      with assms False Some cs ep ga1 t1 show ?thesis
        by (auto simp: HandlerManager_save_body_def)
    next
      case site: (Inr site)
      obtain r2 sd dd where ga2: "get_address mail_address_key (sc, dc) = (r2, sd, dd)"
        by (metis prod_cases3)
      note t2 = get_address_tables[OF ga2]
      show ?thesis
      proof (cases r2)
        case (Inl x)
        with assms False Some cs ep ga1 site ga2 t1 t2 show ?thesis
          by (auto simp: HandlerManager_save_body_def)
      next
        case mail: (Inr mail)
        obtain r3 se where hc: "Handler_create site mail p nc dd sd = (r3, se)" by fastforce
        from Handler_create_tables[OF hc] assms False Some cs ep ga1 site ga2 mail hc t1 t2
        show ?thesis
          by (cases r3) (auto simp: HandlerManager_save_body_def)
      qed
    qed
  qed
qed

lemma HandlerManager_save_tables:
  assumes "HandlerManager_save d s = (r, s')"
  shows "manifest_handlers s' = manifest_handlers s \<and> set (handlers s) \<subseteq> set (handlers s') \<and>
         (\<forall>h. r = Inr (Some h) \<longrightarrow> h \<in> set (handlers s'))"
proof -
  obtain rb sb where b: "HandlerManager_save_body d s = (rb, sb)" by fastforce
  from HandlerManager_save_body_tables[OF b] assms b show ?thesis
    by (auto simp: HandlerManager_save_def log_msg_def split: sum.splits exn.splits)
qed

lemma save_e_signatures_tables:
  "save_e_signatures rejects mh ds s = (r, s') \<Longrightarrow>
     handlers s' = handlers s \<and> manifest_handlers s' = manifest_handlers s"
  by (induction ds arbitrary: s)
     (auto simp: ESignature_save_def insert_row_def Let_def log_msg_def
        split: option.splits prod.splits sum.splits)

lemma ManifestHandler_create_tables:
  "ManifestHandler_create h paper s = (r, s') \<Longrightarrow>
     handlers s' = handlers s \<and>
     (case r of
        Inl x \<Rightarrow> manifest_handlers s' = manifest_handlers s
      | Inr mh \<Rightarrow> manifest_handlers s' = manifest_handlers s @ [mh] \<and>
                  (\<exists>hr. h = Some hr \<and> handler (snd mh) = fst hr))"
  by (auto simp: ManifestHandler_create_def insert_row_def Let_def split: option.splits)

lemma ManifestHandlerManager_save_body_tables:
  assumes "ManifestHandlerManager_save_body rejects paper es d s = (r, s')"
  shows "(\<forall>mh. r = Inr (Some mh) \<longrightarrow>
            mh \<in> set (manifest_handlers s') \<and> (\<exists>h \<in> set (handlers s'). fst h = handler (snd mh))) \<and>
         (\<forall>mh \<in> set (manifest_handlers s').
            mh \<in> set (manifest_handlers s) \<or> (\<exists>h \<in> set (handlers s'). fst h = handler (snd mh)))"
proof (cases "mhd_handler d")
  case None
  with assms show ?thesis by (auto simp: ManifestHandlerManager_save_body_def)
next
  case (Some hdat)
  show ?thesis
  proof (cases "hd_epa_id hdat")
    case None
    with assms Some show ?thesis by (auto simp: ManifestHandlerManager_save_body_def)
  next
    case e: (Some e)
    define step where "step =
      (if Handler_exists (Some e) s then
         (case Handler_get (Some e) s of
            Inl x \<Rightarrow> (Inl x, s)
          | Inr h \<Rightarrow> (Inr (Some h), log_msg DEBUG ''using existing Handler {handler}'' s))
       else
         (case HandlerManager_save hdat s of
            (Inl x, s1) \<Rightarrow> (Inl x, s1)
          | (Inr h, s1) \<Rightarrow> (Inr h, log_msg DEBUG ''Handler created {handler}'' s1)))"
    obtain r1 s1 where st: "step = (r1, s1)" by fastforce
    have t1: "manifest_handlers s1 = manifest_handlers s \<and>
              (\<forall>h. r1 = Inr (Some h) \<longrightarrow> h \<in> set (handlers s1))"
    proof (cases "Handler_exists (Some e) s")
      case True
      with st show ?thesis
        by (auto simp: step_def log_msg_def split: sum.splits dest: Handler_get_member)
    next
      case False
      obtain rh sh where hs: "HandlerManager_save hdat s = (rh, sh)" by fastforce
      from HandlerManager_save_tables[OF hs] False st hs show ?thesis
        by (auto simp: step_def log_msg_def split: sum.splits)
    qed
    have body: "(case step of
                  (Inl x, s1) \<Rightarrow> (Inl x, s1)
                | (Inr h, s1) \<Rightarrow>
                    (case ManifestHandler_create h paper s1 of
                       (Inl x, s2) \<Rightarrow> (Inl x, s2)
                     | (Inr mh, s2) \<Rightarrow>
                         (case save_e_signatures rejects mh es
                                 (log_msg DEBUG ''ManifestHandler created {manifest_handler}'' s2) of
                            (Inl x, s3) \<Rightarrow> (Inl x, s3)
                          | (Inr u, s3) \<Rightarrow> (Inr (Some mh), s3)))) = (r, s')"
      using assms Some e by (simp add: ManifestHandlerManager_save_body_def step_def)
    show ?thesis
    proof (cases r1)
      case (Inl x)
      with body st t1 show ?thesis by auto
    next
      case h: (Inr h)
      obtain r2 s2 where mc: "ManifestHandler_create h paper s1 = (r2, s2)" by fastforce
      note t2 = ManifestHandler_create_tables[OF mc]
      show ?thesis
      proof (cases r2)
        case (Inl x)
        with body st h mc t1 t2 show ?thesis by auto
      next
        case mh: (Inr mh)
        obtain r3 s3 where se: "save_e_signatures rejects mh es
              (log_msg DEBUG ''ManifestHandler created {manifest_handler}'' s2) = (r3, s3)"
          by fastforce
        from save_e_signatures_tables[OF se]
        have t3: "handlers s3 = handlers s2 \<and> manifest_handlers s3 = manifest_handlers s2"
          by (simp add: log_msg_def)
        from body st h mc mh se have s': "s' = s3" and r: "r = (case r3 of Inl x \<Rightarrow> Inl x | Inr u \<Rightarrow> Inr (Some mh))"
          by (auto split: sum.splits)
        from t2 mh obtain hr where hr: "h = Some hr" "handler (snd mh) = fst hr"
          "manifest_handlers s2 = manifest_handlers s1 @ [mh]" "handlers s2 = handlers s1"
          by auto
        with t1 h have "hr \<in> set (handlers s1)" by simp
        with hr t3 t1 s' r show ?thesis
          by (auto split: sum.splits)
      qed
    qed
  qed
qed


text \<open>
  C8: a ManifestHandler that \<open>ManifestHandlerManager.save\<close> returns is a row of the
  store whose handler reference is the key of a Handler in the store; and whatever the
  outcome of the call, every ManifestHandler row it has added references a Handler in
  the store. The column is not nullable, so the reference is never null.
\<close>

theorem ManifestHandler_references_existing_Handler:
  assumes "ManifestHandlerManager_save rejects d s = (r, s')"
  shows "(\<forall>mh. r = Inr (Some mh) \<longrightarrow>
            mh \<in> set (manifest_handlers s') \<and> (\<exists>h \<in> set (handlers s'). fst h = handler (snd mh))) \<and>
         (\<forall>mh \<in> set (manifest_handlers s').
            mh \<in> set (manifest_handlers s) \<or> (\<exists>h \<in> set (handlers s'). fst h = handler (snd mh)))"
proof -
  obtain es paper s1 where ps: "pop_signatures d s = (es, paper, s1)"
    by (metis prod_cases3)
  obtain rb sb where b: "ManifestHandlerManager_save_body rejects paper es d s1 = (rb, sb)"
    by fastforce
  note t = ManifestHandlerManager_save_body_tables[OF b] pop_signatures_tables[OF ps]
  from assms ps b have "handlers s' = handlers sb \<and> manifest_handlers s' = manifest_handlers sb \<and>
      (\<forall>mh. r = Inr (Some mh) \<longrightarrow> rb = Inr (Some mh))"
    by (auto simp: ManifestHandlerManager_save_def log_msg_def split: sum.splits exn.splits)
  with t show ?thesis by simp
qed

lemma example_ManifestHandlerManager_save:
  "ManifestHandlerManager_save (\<lambda>d. None) example_signed_data example_store =
     (Inr (Some (1, \<lparr>handler = 1, paper_signature = Some 1\<rparr>)), example_store_signed)"
  by code_simp

theorem ManifestHandler_references_existing_Handler_witness:
  "ManifestHandlerManager_save (\<lambda>d. None) example_signed_data example_store =
     (Inr (Some (1, \<lparr>handler = 1, paper_signature = Some 1\<rparr>)), example_store_signed) \<and>
   (1, \<lparr>handler = 1, paper_signature = Some 1\<rparr>) \<in> set (manifest_handlers example_store_signed) \<and>
   (\<exists>h \<in> set (handlers example_store_signed). fst h = 1)"
  using ManifestHandler_references_existing_Handler [OF example_ManifestHandlerManager_save]
    example_ManifestHandlerManager_save
  by simp

section \<open>Swallowed key errors\<close>

lemma HandlerManager_save_not_KeyError: "fst (HandlerManager_save d s) \<noteq> Inl (KeyError k)"
  by (auto simp: HandlerManager_save_def split: prod.splits sum.splits exn.splits)

lemma ManifestHandlerManager_save_not_KeyError:
  "fst (ManifestHandlerManager_save rejects d s) \<noteq> Inl (KeyError k)"
  by (auto simp: ManifestHandlerManager_save_def split: prod.splits sum.splits exn.splits)

lemma ManifestHandlerManager_save_no_handler:
  assumes "mhd_handler d = None \<or> (\<exists>h. mhd_handler d = Some h \<and> hd_epa_id h = None)"
  shows "ManifestHandlerManager_save rejects d s =
           (Inr None, log_msg WARNING ''KeyError while creating Manifest handler {exc}''
                        (snd (snd (pop_signatures d s))))"
  using assms
  by (auto simp: ManifestHandlerManager_save_def ManifestHandlerManager_save_body_def
      split: prod.splits)

text \<open>
  C4, as the code has it. No \<open>KeyError\<close> leaves \<open>HandlerManager.save\<close> or
  \<open>ManifestHandlerManager.save\<close>. A handler payload without \<open>contact\<close>, for a new
  \<open>epa_id\<close>, makes \<open>HandlerManager.save\<close> log a warning and return \<open>None\<close> with nothing
  created. A ManifestHandler payload without \<open>handler\<close>, or whose handler has no
  \<open>epa_id\<close>, makes \<open>ManifestHandlerManager.save\<close> log a warning and return \<open>None\<close> with
  no Handler, ManifestHandler, ESignature, Address, Contact or phone created; the paper
  signature of the payload, created before the \<open>try\<close> block, is in the store.
\<close>

theorem KeyError_is_swallowed:
  "fst (HandlerManager_save hdat s) \<noteq> Inl (KeyError k) \<and>
   fst (ManifestHandlerManager_save rejects d s) \<noteq> Inl (KeyError k) \<and>
   (hd_contact hdat = None \<and> \<not> Handler_exists (hd_epa_id hdat) s \<longrightarrow>
      HandlerManager_save hdat s =
        (Inr None, log_msg WARNING ''error while creating handler {exc}'' s)) \<and>
   (mhd_handler d = None \<or> (\<exists>h. mhd_handler d = Some h \<and> hd_epa_id h = None) \<longrightarrow>
      (\<exists>s'. ManifestHandlerManager_save rejects d s = (Inr None, s') \<and>
            last (logs s') = (WARNING, ''KeyError while creating Manifest handler {exc}'') \<and>
            handlers s' = handlers s \<and> manifest_handlers s' = manifest_handlers s \<and>
            e_signatures s' = e_signatures s \<and> addresses s' = addresses s \<and>
            contacts s' = contacts s \<and> phones s' = phones s \<and>
            paper_signatures s' =
              (case mhd_paper_signature d of
                 None \<Rightarrow> paper_signatures s
               | Some p \<Rightarrow> paper_signatures s @ [(fresh_pk (paper_signatures s), p)])))"
proof (intro conjI impI)
  show "fst (HandlerManager_save hdat s) \<noteq> Inl (KeyError k)"
    by (rule HandlerManager_save_not_KeyError)
  show "fst (ManifestHandlerManager_save rejects d s) \<noteq> Inl (KeyError k)"
    by (rule ManifestHandlerManager_save_not_KeyError)
next
  assume "hd_contact hdat = None \<and> \<not> Handler_exists (hd_epa_id hdat) s"
  then show "HandlerManager_save hdat s =
        (Inr None, log_msg WARNING ''error while creating handler {exc}'' s)"
    by (simp add: HandlerManager_save_def HandlerManager_save_body_def)
next
  assume a: "mhd_handler d = None \<or> (\<exists>h. mhd_handler d = Some h \<and> hd_epa_id h = None)"
  show "\<exists>s'. ManifestHandlerManager_save rejects d s = (Inr None, s') \<and>
            last (logs s') = (WARNING, ''KeyError while creating Manifest handler {exc}'') \<and>
            handlers s' = handlers s \<and> manifest_handlers s' = manifest_handlers s \<and>
            e_signatures s' = e_signatures s \<and> addresses s' = addresses s \<and>
            contacts s' = contacts s \<and> phones s' = phones s \<and>
            paper_signatures s' =
              (case mhd_paper_signature d of
                 None \<Rightarrow> paper_signatures s
               | Some p \<Rightarrow> paper_signatures s @ [(fresh_pk (paper_signatures s), p)])"
    unfolding ManifestHandlerManager_save_no_handler[OF a]
    by (auto simp: pop_signatures_def PaperSignature_create_def insert_row_def Let_def log_msg_def
        split: option.splits)
qed

theorem KeyError_is_swallowed_witness:
  "HandlerManager_save (example_handler_data\<lparr>hd_contact := None\<rparr>) example_store =
     (Inr None, log_msg WARNING ''error while creating handler {exc}'' example_store) \<and>
   (\<exists>s'. ManifestHandlerManager_save (\<lambda>d. None) example_no_handler_data example_store =
            (Inr None, s') \<and>
          last (logs s') = (WARNING, ''KeyError while creating Manifest handler {exc}'') \<and>
          handlers s' = [] \<and> manifest_handlers s' = [] \<and> e_signatures s' = [] \<and>
          paper_signatures s' = [(1, example_signature)])"
proof -
  have h1: "hd_contact (example_handler_data\<lparr>hd_contact := None\<rparr>) = None \<and>
            \<not> Handler_exists (hd_epa_id (example_handler_data\<lparr>hd_contact := None\<rparr>)) example_store"
    by (simp add: example_handler_data_def example_store_def empty_store_def Handler_exists_def
        Handler_filter_def)
  have h2: "mhd_handler example_no_handler_data = None"
    by (simp add: example_no_handler_data_def)
  have t: "handlers example_store = [] \<and> manifest_handlers example_store = [] \<and>
           e_signatures example_store = [] \<and> paper_signatures example_store = [] \<and>
           mhd_paper_signature example_no_handler_data = Some example_signature"
    by (simp add: example_store_def empty_store_def example_no_handler_data_def)
  from KeyError_is_swallowed [of "example_handler_data\<lparr>hd_contact := None\<rparr>" example_store
      "''contact''" "\<lambda>d. None" example_no_handler_data] h1 h2 t
  show ?thesis
    by (auto simp: fresh_pk_def)
qed

text \<open>
  The claim of C4 that the call creates no signature record fails on a payload that has
  a paper signature and no \<open>handler\<close> key: the method returns \<open>None\<close> and the
  PaperSignature is in the store.
\<close>

theorem KeyError_leaves_paper_signature_counterexample:
  "ManifestHandlerManager_save (\<lambda>d. None) example_no_handler_data empty_store =
     (Inr None,
      empty_store
        \<lparr>paper_signatures := [(1, example_signature)],
         logs := [(DEBUG, ''e_signature data {e_signatures}''),
                  (WARNING, ''KeyError while creating Manifest handler {exc}'')]\<rparr>)"
  by code_simp

section \<open>The batch pull\<close>

lemma save_manifest_Inr:
  "save_manifest ser j s = (Inr man, s') \<Longrightarrow> \<exists>sa sb. save ser j sa = (Inr man, sb)"
  by (auto simp: save_manifest_def atomic_def split: if_splits prod.splits sum.splits)

lemma pull_one_cases:
  assumes "pull_one rc ser m (res, s, r) = (res1, s1, r1)"
  shows "(success res1 = success res \<and> error res1 = error res @ [m]) \<or>
         (error res1 = error res \<and>
          (\<exists>resp r' man sa sb. get_manifest rc r m = (resp, r') \<and> ok resp \<and>
              save ser (body resp) sa = (Inr man, sb) \<and>
              success res1 = success res @ [mtn (snd man)]))"
proof -
  obtain resp r' where g: "get_manifest rc r m = (resp, r')" by fastforce
  show ?thesis
  proof (cases "ok resp")
    case False
    with assms g show ?thesis
      by (auto simp: pull_one_def retrieve_manifest_def)
  next
    case True
    define sa where "sa = log_msg DEBUG ''manifest pulled {mtn}'' s"
    obtain x sb where sm: "save_manifest ser (body resp) sa = (x, sb)" by fastforce
    show ?thesis
    proof (cases x)
      case (Inl e)
      with assms g True sm show ?thesis
        by (auto simp: pull_one_def retrieve_manifest_def sa_def)
    next
      case (Inr man)
      with sm save_manifest_Inr obtain sc sd where sv: "save ser (body resp) sc = (Inr man, sd)"
        by blast
      from assms g True sm Inr have "error res1 = error res \<and>
          success res1 = success res @ [mtn (snd man)]"
        by (auto simp: pull_one_def retrieve_manifest_def sa_def)
      with g True sv show ?thesis by blast
    qed
  qed
qed

lemma pull_loop_partition:
  assumes "pull_loop rc ser tns (res0, s, r) = (res, s', r')"
  shows "\<exists>ss es. success res = success res0 @ ss \<and> error res = error res0 @ es \<and>
           length ss + length es = length tns \<and> subseq es tns \<and>
           ((\<forall>r m resp r' s man s'. get_manifest rc r m = (resp, r') \<and> ok resp \<and>
                save ser (body resp) s = (Inr man, s') \<longrightarrow> mtn (snd man) = m) \<longrightarrow>
            subseq ss tns \<and> set ss \<union> set es = set tns \<and>
            (distinct tns \<longrightarrow> set ss \<inter> set es = {}))"
  using assms
proof (induction tns arbitrary: res0 s r)
  case Nil
  then show ?case by simp
next
  case (Cons m ms)
  let ?F = "\<forall>r m resp r' s man s'. get_manifest rc r m = (resp, r') \<and> ok resp \<and>
                save ser (body resp) s = (Inr man, s') \<longrightarrow> mtn (snd man) = m"
  obtain res1 s1 r1 where p1: "pull_one rc ser m (res0, s, r) = (res1, s1, r1)"
    by (metis prod_cases3)
  with Cons.prems have "pull_loop rc ser ms (res1, s1, r1) = (res, s', r')" by simp
  from Cons.IH[OF this] obtain ss es where
    ih: "success res = success res1 @ ss" "error res = error res1 @ es"
      "length ss + length es = length ms" "subseq es ms"
      "?F \<longrightarrow> subseq ss ms \<and> set ss \<union> set es = set ms \<and>
            (distinct ms \<longrightarrow> set ss \<inter> set es = {})"
    by blast
  from pull_one_cases[OF p1] show ?case
  proof
    assume a: "success res1 = success res0 \<and> error res1 = error res0 @ [m]"
    have 1: "success res = success res0 @ ss" "error res = error res0 @ (m # es)"
      using a ih by simp_all
    have 2: "length ss + length (m # es) = length (m # ms)" using ih by simp
    have 3: "subseq (m # es) (m # ms)" using ih by simp
    have 4: "?F \<longrightarrow> subseq ss (m # ms) \<and> set ss \<union> set (m # es) = set (m # ms) \<and>
            (distinct (m # ms) \<longrightarrow> set ss \<inter> set (m # es) = {})"
    proof
      assume ?F
      with ih have f: "subseq ss ms" "set ss \<union> set es = set ms"
        "distinct ms \<longrightarrow> set ss \<inter> set es = {}" by blast+
      from f(1) have "subseq ss (m # ms)" by (rule list_emb_Cons)
      moreover have "set ss \<union> set (m # es) = set (m # ms)" using f(2) by auto
      moreover have "distinct (m # ms) \<longrightarrow> set ss \<inter> set (m # es) = {}"
        using f(2,3) by auto
      ultimately show "subseq ss (m # ms) \<and> set ss \<union> set (m # es) = set (m # ms) \<and>
            (distinct (m # ms) \<longrightarrow> set ss \<inter> set (m # es) = {})" by blast
    qed
    from 1 2 3 4 show ?thesis by blast
  next
    assume a: "error res1 = error res0 \<and>
          (\<exists>resp r' man sa sb. get_manifest rc r m = (resp, r') \<and> ok resp \<and>
              save ser (body resp) sa = (Inr man, sb) \<and>
              success res1 = success res0 @ [mtn (snd man)])"
    then obtain resp r'' man sa sb where b: "get_manifest rc r m = (resp, r'')" "ok resp"
       "save ser (body resp) sa = (Inr man, sb)" "success res1 = success res0 @ [mtn (snd man)]"
      by blast
    let ?n = "mtn (snd man)"
    have 1: "success res = success res0 @ (?n # ss)" "error res = error res0 @ es"
      using a b ih by simp_all
    have 2: "length (?n # ss) + length es = length (m # ms)" using ih by simp
    have 3: "subseq es (m # ms)" using ih(4) by (rule list_emb_Cons)
    have 4: "?F \<longrightarrow> subseq (?n # ss) (m # ms) \<and> set (?n # ss) \<union> set es = set (m # ms) \<and>
            (distinct (m # ms) \<longrightarrow> set (?n # ss) \<inter> set es = {})"
    proof
      assume F: ?F
      with ih have f: "subseq ss ms" "set ss \<union> set es = set ms"
        "distinct ms \<longrightarrow> set ss \<inter> set es = {}" by blast+
      from F b have n: "?n = m" by blast
      have "subseq (?n # ss) (m # ms)" using f(1) n by simp
      moreover have "set (?n # ss) \<union> set es = set (m # ms)" using f(2) n by auto
      moreover have "distinct (m # ms) \<longrightarrow> set (?n # ss) \<inter> set es = {}"
        using f(2,3) n by auto
      ultimately show "subseq (?n # ss) (m # ms) \<and> set (?n # ss) \<union> set es = set (m # ms) \<and>
            (distinct (m # ms) \<longrightarrow> set (?n # ss) \<inter> set es = {})" by blast
    qed
    from 1 2 3 4 show ?thesis by blast
  qed
qed

lemma pull_loop_snoc:
  "pull_loop rc ser (ms @ [m]) st = pull_one rc ser m (pull_loop rc ser ms st)"
  by (induction ms arbitrary: st) simp_all


text \<open>
  C1, as the code has it. Every tracking number of the input adds exactly one entry to
  the results, in input order, whatever happened to the earlier ones: the requested
  number to \<open>error\<close> when the retrieval or the save raises, the number of the saved
  Manifest to \<open>success\<close> otherwise. So the two lists have together the length of the
  input and \<open>error\<close> is a subsequence of it. When every saved Manifest carries the
  number it was requested under, \<open>success\<close> is a subsequence of the input too and the
  two lists together hold exactly the input's numbers; when moreover the input has no
  number twice, no number is in both lists.
\<close>

theorem pull_manifests_partition:
  assumes "pull_manifests rc ser tns (s, r) = (res, s', r')"
  shows "length (success res) + length (error res) = length tns \<and>
         subseq (error res) tns \<and>
         ((\<forall>r m resp r' s man s'. get_manifest rc r m = (resp, r') \<and> ok resp \<and>
              save ser (body resp) s = (Inr man, s') \<longrightarrow> mtn (snd man) = m) \<longrightarrow>
            subseq (success res) tns \<and> set (success res) \<union> set (error res) = set tns \<and>
            (distinct tns \<longrightarrow> set (success res) \<inter> set (error res) = {})) \<and>
         pull_manifests rc ser (tns @ [m]) (s, r) = pull_one rc ser m (res, s', r') \<and>
         fst (pull_one rc ser m (res, s', r')) =
           (case retrieve_manifest rc m (s', r') of
              (Inl x, s1, r1) \<Rightarrow> res\<lparr>error := error res @ [m]\<rparr>
            | (Inr j, s1, r1) \<Rightarrow>
                (case save_manifest ser j s1 of
                   (Inl x, s2) \<Rightarrow> res\<lparr>error := error res @ [m]\<rparr>
                 | (Inr man, s2) \<Rightarrow> res\<lparr>success := success res @ [mtn (snd man)]\<rparr>))"
proof -
  from assms have l: "pull_loop rc ser tns (\<lparr>success = [], error = []\<rparr>, s, r) = (res, s', r')"
    by (simp add: pull_manifests_def)
  from pull_loop_partition[OF l] have
    "length (success res) + length (error res) = length tns \<and>
     subseq (error res) tns \<and>
     ((\<forall>r m resp r' s man s'. get_manifest rc r m = (resp, r') \<and> ok resp \<and>
              save ser (body resp) s = (Inr man, s') \<longrightarrow> mtn (snd man) = m) \<longrightarrow>
        subseq (success res) tns \<and> set (success res) \<union> set (error res) = set tns \<and>
        (distinct tns \<longrightarrow> set (success res) \<inter> set (error res) = {}))"
    by auto
  moreover have "pull_manifests rc ser (tns @ [m]) (s, r) = pull_one rc ser m (res, s', r')"
    using l by (simp add: pull_manifests_def pull_loop_snoc)
  moreover have "fst (pull_one rc ser m (res, s', r')) =
           (case retrieve_manifest rc m (s', r') of
              (Inl x, s1, r1) \<Rightarrow> res\<lparr>error := error res @ [m]\<rparr>
            | (Inr j, s1, r1) \<Rightarrow>
                (case save_manifest ser j s1 of
                   (Inl x, s2) \<Rightarrow> res\<lparr>error := error res @ [m]\<rparr>
                 | (Inr man, s2) \<Rightarrow> res\<lparr>success := success res @ [mtn (snd man)]\<rparr>))"
    by (simp add: pull_one_def split: prod.splits sum.splits)
  ultimately show ?thesis by blast
qed

lemma example_pull_manifests:
  "pull_manifests example_rcrainfo example_serializer
     [''100000001ELC'', ''000000000ELC'', ''100000002ELC''] (empty_store, 0) =
   (\<lparr>success = [''100000001ELC'', ''100000002ELC''], error = [''000000000ELC'']\<rparr>,
    empty_store
      \<lparr>manifests := [(1, \<lparr>mtn = ''100000001ELC'', manifest_handler_refs = []\<rparr>),
                     (2, \<lparr>mtn = ''100000002ELC'', manifest_handler_refs = []\<rparr>)],
       logs := [(DEBUG, ''manifest pulled {mtn}''),
                (DEBUG, ''manifest serializer is valid''),
                (INFO, ''saved manifest {manifest.mtn}''),
                (WARNING, ''error retrieving manifest {mtn}''),
                (WARNING, ''error pulling manifest {mtn}: {exc}''),
                (DEBUG, ''manifest pulled {mtn}''),
                (DEBUG, ''manifest serializer is valid''),
                (INFO, ''saved manifest {manifest.mtn}'')]\<rparr>,
    3)"
  by code_simp

lemma example_collaborators_keep_mtn:
  "\<forall>r m resp r' s man s'. get_manifest example_rcrainfo r m = (resp, r') \<and> ok resp \<and>
      save example_serializer (body resp) s = (Inr man, s') \<longrightarrow> mtn (snd man) = m"
  by (auto simp: example_rcrainfo_def example_serializer_def insert_row_def Let_def)

theorem pull_manifests_partition_witness:
  "fst (pull_manifests example_rcrainfo example_serializer
          [''100000001ELC'', ''000000000ELC'', ''100000002ELC''] (empty_store, 0)) =
     \<lparr>success = [''100000001ELC'', ''100000002ELC''], error = [''000000000ELC'']\<rparr> \<and>
   length [''100000001ELC'', ''100000002ELC''] + length [''000000000ELC''] =
     length [''100000001ELC'', ''000000000ELC'', ''100000002ELC''] \<and>
   subseq [''000000000ELC''] [''100000001ELC'', ''000000000ELC'', ''100000002ELC''] \<and>
   subseq [''100000001ELC'', ''100000002ELC'']
     [''100000001ELC'', ''000000000ELC'', ''100000002ELC''] \<and>
   set [''100000001ELC'', ''100000002ELC''] \<union> set [''000000000ELC''] =
     set [''100000001ELC'', ''000000000ELC'', ''100000002ELC''] \<and>
   set [''100000001ELC'', ''100000002ELC''] \<inter> set [''000000000ELC''] = {}"
  using pull_manifests_partition [OF example_pull_manifests] example_collaborators_keep_mtn
    example_pull_manifests
  by simp

text \<open>
  The claim of C1 fails on two inputs. With the tracking number \<open>100000001ELC\<close> twice in
  the input and a remote system that answers the first request only, the number is in
  both lists. With a remote system that answers the request for \<open>100000001elc\<close> with
  the manifest \<open>100000001ELC\<close>, the lists hold a number that is not in the input and
  miss the one that is.
\<close>

theorem pull_manifests_partition_counterexample:
  "fst (pull_manifests flaky_rcrainfo example_serializer
          [''100000001ELC'', ''100000001ELC''] (empty_store, 0)) =
     \<lparr>success = [''100000001ELC''], error = [''100000001ELC'']\<rparr> \<and>
   fst (pull_manifests renumbering_rcrainfo example_serializer
          [''100000001elc''] (empty_store, 0)) =
     \<lparr>success = [''100000001ELC''], error = []\<rparr>"
  by code_simp

section \<open>The atomic unit of work\<close>








lemma example_save_manifest_KeyError:
  "save_manifest (ManifestSerializer rejects_with_KeyError example_validated (\<lambda>j. JNull))
     (JStr ''100000001ELC'') example_store =
   (Inl (IntegrityError ''manifest_handler''),
    example_store
      \<lparr>logs := [(DEBUG, ''manifest serializer is valid''),
                (DEBUG, ''e_signature data {e_signatures}''),
                (DEBUG, ''Handler created {handler}''),
                (DEBUG, ''ManifestHandler created {manifest_handler}''),
                (DEBUG, ''ESignature created {e_sig}''),
                (WARNING, ''KeyError while creating Manifest handler {exc}'')]\<rparr>)"
  by code_simp


lemma example_save_manifest_succeeds:
  "fst (save_manifest (ManifestSerializer (\<lambda>d. None) example_validated (\<lambda>j. JNull))
          (JStr ''100000001ELC'') example_store) =
     Inr (1, \<lparr>mtn = ''100000001ELC'', manifest_handler_refs = [1]\<rparr>) \<and>
   manifest_handlers
     (snd (save_manifest (ManifestSerializer (\<lambda>d. None) example_validated (\<lambda>j. JNull))
             (JStr ''100000001ELC'') example_store)) =
     [(1, \<lparr>handler = 1, paper_signature = Some 1\<rparr>)]"
  by code_simp

lemma example_partial_writes:
  "ManifestHandlerManager_save rejects_with_KeyError example_two_signatures_data example_store =
   (Inr None,
    example_store_signed
      \<lparr>logs := [(DEBUG, ''e_signature data {e_signatures}''),
                (DEBUG, ''Handler created {handler}''),
                (DEBUG, ''ManifestHandler created {manifest_handler}''),
                (DEBUG, ''ESignature created {e_sig}''),
                (WARNING, ''KeyError while creating Manifest handler {exc}'')]\<rparr>)"
  by code_simp


end
